theory Spec2Isabelle
  imports Main "HOL-Library.Multiset"
begin

section \<open>git-branch-delete: a shallow embedding\<close>

text \<open>
  The repository holds two implementations of the same command-line workflow:
  \<^verbatim>\<open>src/git-branch-delete.ts\<close> and an earlier file with the same functions.
  Both are embedded. Definitions taken from the earlier file carry the suffix \<open>_v1\<close>
  where the two files use the same name (\<open>getGitBranches\<close>, \<open>selectBranchNames\<close>,
  \<open>deleteBranches\<close>, \<open>main\<close>); \<open>isGitRepository\<close> and \<open>askForConfirmation\<close> exist
  only there and keep their names.
\<close>

subsection \<open>JavaScript strings\<close>

text \<open>
  A string is a list of code units below 256 (\<^typ>\<open>string\<close>). The white-space class of
  \<^verbatim>\<open>String.prototype.trim\<close> and of \<^verbatim>\<open>\s\<close> in a regular expression is, in that range,
  TAB, LF, VT, FF, CR, SPACE and NBSP.
\<close>

definition is_space :: "char \<Rightarrow> bool" where
  "is_space c = (c \<in> set [CHR 0x09, CHR 0x0A, CHR 0x0B, CHR 0x0C, CHR 0x0D, CHR 0x20, CHR 0xA0])"

text \<open>\<^verbatim>\<open>s.trim()\<close>\<close>

definition trim :: "string \<Rightarrow> string" where
  "trim s = rev (dropWhile is_space (rev (dropWhile is_space s)))"

text \<open>\<^verbatim>\<open>s.startsWith(p)\<close>\<close>

definition startsWith :: "string \<Rightarrow> string \<Rightarrow> bool" where
  "startsWith s p = (take (length p) s = p)"

text \<open>\<^verbatim>\<open>s.substring(n)\<close> for \<open>n \<ge> 0\<close>: the empty string when \<open>s\<close> is shorter than \<open>n\<close>.\<close>

definition substring :: "string \<Rightarrow> nat \<Rightarrow> string" where
  "substring s n = drop n s"

text \<open>
  \<^verbatim>\<open>s.split(sep)\<close>: the scan runs left to right, \<open>cur\<close> holds the current field
  reversed; at an occurrence of \<open>sep\<close> the field is closed and the scan resumes behind
  the occurrence. The empty separator splits into single code units.
\<close>

fun split_from :: "string \<Rightarrow> string \<Rightarrow> string \<Rightarrow> string list" where
  "split_from sep cur [] = [rev cur]"
| "split_from sep cur (c # cs) =
     (if startsWith (c # cs) sep
      then rev cur # split_from sep [] (drop (length sep - 1) cs)
      else split_from sep (c # cur) cs)"

definition split_js :: "string \<Rightarrow> string \<Rightarrow> string list" where
  "split_js s sep = (if sep = [] then map (\<lambda>c. [c]) s else split_from sep [] s)"

text \<open>\<^verbatim>\<open>xs.join(sep)\<close>\<close>

fun join :: "string list \<Rightarrow> string \<Rightarrow> string" where
  "join [] sep = []"
| "join [x] sep = x"
| "join (x # y # ys) sep = x @ sep @ join (y # ys) sep"

text \<open>The decimal numeral of a number, as a template literal prints it.\<close>

definition digit :: "nat \<Rightarrow> char" where
  "digit d = ''0123456789'' ! d"

fun string_of_nat :: "nat \<Rightarrow> string" where
  "string_of_nat n =
     (if n < 10 then [digit n] else string_of_nat (n div 10) @ [digit (n mod 10)])"

subsection \<open>Data\<close>

text \<open>
  \<^verbatim>\<open>interface GitBranch\<close>. The type of \<open>lastCommit\<close> is a parameter: in
  \<^verbatim>\<open>src/git-branch-delete.ts\<close> the field always holds a string; the earlier file
  stores \<^verbatim>\<open>undefined\<close> there when a line has fewer than three fields, so its
  listings are \<open>string option GitBranch\<close>.
\<close>

record 'lc GitBranch =
  name :: string
  lastCommitRelative :: string
  lastCommit :: 'lc
  isCurrent :: bool

text \<open>\<^verbatim>\<open>interface BranchChoice { name; message; value }\<close>\<close>

record BranchChoice =
  choice_name :: string
  choice_message :: string
  choice_value :: string

text \<open>An exception raised by the JavaScript runtime.\<close>

datatype js_error = TypeError

subsection \<open>Branch Lister: the parsing step of \<^verbatim>\<open>src/git-branch-delete.ts\<close>\<close>

text \<open>\<^verbatim>\<open>prefix.replace(/^[\s*]+/, "")\<close>\<close>

definition strip_marker :: "string \<Rightarrow> string" where
  "strip_marker s = dropWhile (\<lambda>c. is_space c \<or> c = CHR ''*'') s"

text \<open>
  The arrow function given to \<^verbatim>\<open>map\<close>. \<^verbatim>\<open>const [prefix, ...parts] = line.split(":::")\<close>
  leaves \<open>prefix\<close> undefined on an empty array, and \<^verbatim>\<open>prefix.startsWith\<close> raises a
  TypeError then. The defaults of
  \<^verbatim>\<open>const [lastCommitRelative = "Unknown", lastCommit = ""] = parts\<close> apply where the
  array has no element at that index.
\<close>

definition getGitBranches_line :: "string \<Rightarrow> js_error + string GitBranch" where
  "getGitBranches_line line =
     (case split_js line '':::'' of
        [] \<Rightarrow> Inl TypeError
      | prefix # parts \<Rightarrow>
          Inr \<lparr> name = strip_marker prefix,
                lastCommitRelative = (case parts of [] \<Rightarrow> ''Unknown'' | r # _ \<Rightarrow> r),
                lastCommit = (case parts of _ # c # _ \<Rightarrow> c | _ \<Rightarrow> []),
                isCurrent = startsWith prefix ''*'' \<rparr>)"

text \<open>\<^verbatim>\<open>xs.map(f)\<close> for an \<open>f\<close> that may raise: the first exception ends the map.\<close>

fun map_raising :: "('a \<Rightarrow> 'e + 'b) \<Rightarrow> 'a list \<Rightarrow> 'e + 'b list" where
  "map_raising f [] = Inr []"
| "map_raising f (x # xs) =
     (case f x of
        Inl e \<Rightarrow> Inl e
      | Inr y \<Rightarrow> (case map_raising f xs of Inl e \<Rightarrow> Inl e | Inr ys \<Rightarrow> Inr (y # ys)))"

text \<open>
  \<^verbatim>\<open>stdout.trim().split("\n").map(...).filter((branch) => branch.name)\<close>: a string is
  truthy when it is not empty.
\<close>

definition getGitBranches_parse :: "string \<Rightarrow> js_error + string GitBranch list" where
  "getGitBranches_parse stdout =
     (case map_raising getGitBranches_line (split_js (trim stdout) ''\<newline>'') of
        Inl e \<Rightarrow> Inl e
      | Inr branches \<Rightarrow> Inr (filter (\<lambda>branch. name branch \<noteq> []) branches))"

subsection \<open>Branch Lister: the parsing step of the earlier file\<close>

text \<open>
  The arrow function given to \<^verbatim>\<open>map\<close>:
  \<^verbatim>\<open>const [name, lastCommitRelative, lastCommit] = line.substring(2).split(":::")\<close>.
  \<open>lastCommitRelative || "Unknown"\<close> replaces both \<^verbatim>\<open>undefined\<close> and the empty string.
  The interface declares \<open>name\<close> a string; an empty array would leave it undefined,
  and the model makes that case an error value (\<open>split_js\<close> never returns the empty
  array, see \<open>split_js_not_Nil\<close>).
\<close>

definition getGitBranches_v1_line :: "string \<Rightarrow> js_error + string option GitBranch" where
  "getGitBranches_v1_line line =
     (case split_js (substring line 2) '':::'' of
        [] \<Rightarrow> Inl TypeError
      | name' # rest \<Rightarrow>
          Inr \<lparr> name = name',
                lastCommitRelative =
                  (case rest of [] \<Rightarrow> ''Unknown'' | r # _ \<Rightarrow> if r = [] then ''Unknown'' else r),
                lastCommit = (case rest of _ # c # _ \<Rightarrow> Some c | _ \<Rightarrow> None),
                isCurrent = startsWith line ''*:'' \<rparr>)"

text \<open>\<^verbatim>\<open>stdout.split("\n").map(...).filter((branch) => branch.name !== "")\<close>\<close>

definition getGitBranches_v1_parse :: "string \<Rightarrow> js_error + string option GitBranch list" where
  "getGitBranches_v1_parse stdout =
     (case map_raising getGitBranches_v1_line (split_js stdout ''\<newline>'') of
        Inl e \<Rightarrow> Inl e
      | Inr branches \<Rightarrow> Inr (filter (\<lambda>branch. name branch \<noteq> []) branches))"

subsection \<open>The environment\<close>

text \<open>
  An absolute, normalised POSIX path is the list of its components below the root, so
  \<open>[]\<close> is \<^verbatim>\<open>"/"\<close>; \<^verbatim>\<open>resolve(dir, "..")\<close> drops the last component and stays at the
  root, \<^verbatim>\<open>resolve(dir, ".git")\<close> appends one.
\<close>

type_synonym path = "string list"

text \<open>
  What the collaborators of one run answer: the working directory and the file system,
  the outcome of every external command (\<open>Inl\<close> the message of the error, \<open>Inr\<close> the
  standard output), the collation of \<^verbatim>\<open>localeCompare\<close>, the outcome of the multi-select
  prompt on a list of choices (\<open>None\<close> when the user cancels), and the lines the user
  submits at the input prompt, in order. The input prompt resolves with the first
  submitted line its validator accepts; a user who stops before submitting one has
  cancelled the prompt.
\<close>

record world =
  process_cwd :: path
  fs_existsSync :: "path \<Rightarrow> bool"
  child_exec :: "string \<Rightarrow> string + string"
  localeCompare :: "string \<Rightarrow> string \<Rightarrow> int"
  prompt_multiselect :: "BranchChoice list \<Rightarrow> string list option"
  prompt_lines :: "string list"

definition prompt_input :: "(string \<Rightarrow> bool) \<Rightarrow> world \<Rightarrow> string option" where
  "prompt_input validate w = find validate (prompt_lines w)"

text \<open>What a run does that can be observed from outside, in order.\<close>

datatype event =
    Log string
  | LogError string
  | Exec string
  | PromptMultiselect "BranchChoice list"
  | PromptInput string

text \<open>
  How an asynchronous function ends: its promise is fulfilled with a value, it is
  rejected with an error (the error's message is kept), or the function has called
  \<^verbatim>\<open>process.exit\<close>.
\<close>

datatype 'a flow = Returned 'a | Thrown string | Exited nat

text \<open>\<^verbatim>\<open>const x = await m; ...\<close>\<close>

definition and_then ::
  "event list \<times> 'a flow \<Rightarrow> ('a \<Rightarrow> event list \<times> 'b flow) \<Rightarrow> event list \<times> 'b flow" where
  "and_then m f =
     (case m of
        (ev, Returned x) \<Rightarrow> (case f x of (ev', r) \<Rightarrow> (ev @ ev', r))
      | (ev, Thrown e) \<Rightarrow> (ev, Thrown e)
      | (ev, Exited n) \<Rightarrow> (ev, Exited n))"

text \<open>
  The exit code of the process: 0 when \<open>main\<close>'s promise is fulfilled, the argument of
  \<^verbatim>\<open>process.exit\<close>, and 1 when the promise is rejected and nothing handles it.
\<close>

fun exit_code :: "unit flow \<Rightarrow> nat" where
  "exit_code (Returned u) = 0"
| "exit_code (Exited n) = n"
| "exit_code (Thrown e) = 1"

text \<open>The colour functions of \<^verbatim>\<open>ansi-colors\<close> leave the text as it is; colour is cosmetic.\<close>

definition colors_blue :: "string \<Rightarrow> string" where "colors_blue s = s"
definition colors_yellow :: "string \<Rightarrow> string" where "colors_yellow s = s"
definition colors_green :: "string \<Rightarrow> string" where "colors_green s = s"
definition colors_red :: "string \<Rightarrow> string" where "colors_red s = s"
definition colors_red_bold_underline :: "string \<Rightarrow> string" where
  "colors_red_bold_underline s = s"

text \<open>
  \<^verbatim>\<open>xs.sort(cmp)\<close>. The sort is stable, and \<open>x\<close> stays before \<open>y\<close> when \<open>cmp x y \<le> 0\<close>;
  for a comparator that orders the elements consistently every stable sort returns the
  list that insertion does.
\<close>

fun insert_by :: "('a \<Rightarrow> 'a \<Rightarrow> int) \<Rightarrow> 'a \<Rightarrow> 'a list \<Rightarrow> 'a list" where
  "insert_by cmp x [] = [x]"
| "insert_by cmp x (y # ys) = (if cmp x y \<le> 0 then x # y # ys else y # insert_by cmp x ys)"

definition sort_js :: "('a \<Rightarrow> 'a \<Rightarrow> int) \<Rightarrow> 'a list \<Rightarrow> 'a list" where
  "sort_js cmp xs = foldr (insert_by cmp) xs []"

text \<open>\<^verbatim>\<open>Number(b)\<close> of a boolean.\<close>

definition Number :: "bool \<Rightarrow> int" where
  "Number b = (if b then 1 else 0)"

text \<open>\<^verbatim>\<open>'${b}'\<close>\<close>

definition quoted :: "string \<Rightarrow> string" where
  "quoted b = [CHR 0x27] @ b @ [CHR 0x27]"

text \<open>The numbered list both confirmation functions print: \<^verbatim>\<open>` ${i + 1}. ${name}`\<close>.\<close>

definition numbered :: "string list \<Rightarrow> string list" where
  "numbered branches =
     map (\<lambda>(i, branchName). '' '' @ string_of_nat (i + 1) @ ''. '' @ branchName)
       (enumerate 0 branches)"

text \<open>The choice built from a record, the same in both files.\<close>

definition choice_of :: "'lc GitBranch \<Rightarrow> BranchChoice" where
  "choice_of branch =
     \<lparr> choice_name = name branch,
       choice_message = name branch @ '' ('' @ lastCommitRelative branch @ '')'',
       choice_value = name branch \<rparr>"

text \<open>The informational line about the current branch, the same in both files.\<close>

definition current_line :: "'lc GitBranch \<Rightarrow> event" where
  "current_line current =
     Log (colors_yellow
       (''Current branch: '' @ name current @ '' ('' @ lastCommitRelative current @ '')''))"

text \<open>The message of the confirmation prompt, the same in both files.\<close>

definition confirm_message :: "string list \<Rightarrow> string" where
  "confirm_message branches =
     ''Delete these '' @ string_of_nat (length branches) @ '' branches? Type ''
       @ colors_green ''yes'' @ '' or '' @ colors_green ''no''"

subsection \<open>\<^verbatim>\<open>src/git-branch-delete.ts\<close>\<close>

text \<open>\<^verbatim>\<open>findGitRoot\<close>: \<^verbatim>\<open>while (dir !== "/") { if (existsSync(...)) return true; dir = resolve(dir, "..") }\<close>\<close>

function findGitRoot_loop :: "world \<Rightarrow> path \<Rightarrow> bool" where
  "findGitRoot_loop w dir =
     (if dir \<noteq> [] then
        (if fs_existsSync w (dir @ [''.git'']) then True
         else findGitRoot_loop w (butlast dir))
      else False)"
  by pat_completeness auto
termination
  by (relation "measure (\<lambda>(w, dir). length dir)") auto

declare findGitRoot_loop.simps [simp del]

definition findGitRoot :: "world \<Rightarrow> bool" where
  "findGitRoot w = findGitRoot_loop w (process_cwd w)"

definition getGitBranches_cmd :: string where
  "getGitBranches_cmd =
     ''git branch -v --format='' @ [CHR 0x22]
       @ ''%(if)%(HEAD)%(then)*%(else) %(end)%(refname:short):::%(committerdate:relative):::%(committerdate:iso8601)''
       @ [CHR 0x22]"

fun js_error_message :: "js_error \<Rightarrow> string" where
  "js_error_message TypeError = ''Cannot read properties of undefined''"

text \<open>\<^verbatim>\<open>getGitBranches\<close>: any error of the command or of the parsing is thrown again with a prefix.\<close>

definition getGitBranches :: "world \<Rightarrow> event list \<times> string GitBranch list flow" where
  "getGitBranches w =
     ([Exec getGitBranches_cmd],
      case child_exec w getGitBranches_cmd of
        Inl message \<Rightarrow> Thrown (''Failed to get git branches: '' @ message)
      | Inr stdout \<Rightarrow>
          (case getGitBranches_parse stdout of
             Inl e \<Rightarrow> Thrown (''Failed to get git branches: '' @ js_error_message e)
           | Inr branches \<Rightarrow> Returned branches))"

text \<open>
  \<^verbatim>\<open>selectBranchNames\<close>: sorted by name, then by \<open>isCurrent\<close> descending; the first
  record is taken for the current one and the rest become the choices.
\<close>

definition selectBranchNames_sorted :: "world \<Rightarrow> 'lc GitBranch list \<Rightarrow> 'lc GitBranch list" where
  "selectBranchNames_sorted w branches =
     sort_js (\<lambda>a b. Number (isCurrent b) - Number (isCurrent a))
       (sort_js (\<lambda>a b. localeCompare w (name a) (name b)) branches)"

definition selectBranchNames_choices :: "world \<Rightarrow> 'lc GitBranch list \<Rightarrow> BranchChoice list" where
  "selectBranchNames_choices w branches =
     (case selectBranchNames_sorted w branches of
        [] \<Rightarrow> []
      | current # others \<Rightarrow> map choice_of others)"

definition selectBranchNames :: "world \<Rightarrow> 'lc GitBranch list \<Rightarrow> event list \<times> string list flow" where
  "selectBranchNames w branches =
     (let shown =
            (case selectBranchNames_sorted w branches of
               [] \<Rightarrow> []
             | current # others \<Rightarrow> if isCurrent current then [current_line current] else [])
            @ [PromptMultiselect (selectBranchNames_choices w branches)]
      in case prompt_multiselect w (selectBranchNames_choices w branches) of
           Some branchNames \<Rightarrow> (shown, Returned branchNames)
         | None \<Rightarrow>
             (shown @ [Log (colors_blue ''Exiting without deleting any branches.'')], Exited 0))"

text \<open>\<^verbatim>\<open>/^(yes|no)$/.test(input)\<close>\<close>

definition confirmDeletion_validate :: "string \<Rightarrow> bool" where
  "confirmDeletion_validate input = (input = ''yes'' \<or> input = ''no'')"

text \<open>\<^verbatim>\<open>confirmDeletion\<close>: a cancelled prompt is caught and gives false.\<close>

definition confirmDeletion :: "world \<Rightarrow> string list \<Rightarrow> event list \<times> bool flow" where
  "confirmDeletion w branches =
     (if branches = [] then ([], Returned False)
      else
        ([Log (colors_red_bold_underline ''You have selected these branches to delete:''),
          Log (join (numbered branches) ''\<newline>''),
          PromptInput (confirm_message branches)],
         case prompt_input confirmDeletion_validate w of
           Some confirmation \<Rightarrow> Returned (confirmation = ''yes'')
         | None \<Rightarrow> Returned False))"

definition deleteBranches_cmd :: "string list \<Rightarrow> string" where
  "deleteBranches_cmd branches = ''git branch -D '' @ join (map quoted branches) '' ''"

text \<open>\<^verbatim>\<open>deleteBranches\<close>: one command for all the names.\<close>

definition deleteBranches :: "world \<Rightarrow> string list \<Rightarrow> event list \<times> unit flow" where
  "deleteBranches w branches =
     (if branches = [] then ([], Returned ())
      else
        (case child_exec w (deleteBranches_cmd branches) of
           Inr stdout \<Rightarrow>
             ([Exec (deleteBranches_cmd branches), Log stdout,
               Log (colors_green ''All selected branches deleted.'')], Returned ())
         | Inl message \<Rightarrow>
             ([Exec (deleteBranches_cmd branches)],
              Thrown (''Failed to delete branches: '' @ message))))"

text \<open>The body of the \<^verbatim>\<open>try\<close> block of \<^verbatim>\<open>main\<close>.\<close>

definition main_try :: "world \<Rightarrow> event list \<times> unit flow" where
  "main_try w =
     (if \<not> findGitRoot w then
        ([Log (colors_blue
            ''Not a Git repository. Please navigate to a directory with a .git folder.'')],
         Returned ())
      else
        and_then (getGitBranches w) (\<lambda>branches.
          if length branches = 1 \<and> isCurrent (branches ! 0) then
            ([Log (colors_blue ''Only one branch (current) exists. Nothing to do.'')],
             Returned ())
          else
            and_then (selectBranchNames w branches) (\<lambda>selectedBranches.
              if selectedBranches = [] then ([], Returned ())
              else
                and_then (confirmDeletion w selectedBranches) (\<lambda>confirmed.
                  if \<not> confirmed then
                    ([Log (colors_blue ''No branches deleted.'')], Returned ())
                  else deleteBranches w selectedBranches))))"

text \<open>\<^verbatim>\<open>main\<close>: the \<^verbatim>\<open>catch\<close> block prints the error and exits with code 1.\<close>

definition main :: "world \<Rightarrow> event list \<times> unit flow" where
  "main w =
     (case main_try w of
        (ev, Thrown message) \<Rightarrow>
          (ev @ [LogError (colors_red (''Error: '' @ message))], Exited 1)
      | (ev, r) \<Rightarrow> (ev, r))"

subsection \<open>The earlier file\<close>

text \<open>
  \<^verbatim>\<open>isGitRepository\<close>: \<^verbatim>\<open>for (;;) { if (existsSync(gitDir)) return true; if (dir === "/") return false; dir = resolve(dir, "..") }\<close>
\<close>

function isGitRepository_loop :: "world \<Rightarrow> path \<Rightarrow> bool" where
  "isGitRepository_loop w dir =
     (if fs_existsSync w (dir @ [''.git'']) then True
      else if dir = [] then False
      else isGitRepository_loop w (butlast dir))"
  by pat_completeness auto
termination
  by (relation "measure (\<lambda>(w, dir). length dir)") auto

declare isGitRepository_loop.simps [simp del]

definition isGitRepository :: "world \<Rightarrow> bool" where
  "isGitRepository w = isGitRepository_loop w (process_cwd w)"

definition getGitBranches_v1_cmd :: string where
  "getGitBranches_v1_cmd =
     ''git for-each-ref --sort=committerdate refs/heads/ --format='' @ [CHR 0x27]
       @ ''%(HEAD):%(refname:short):::%(committerdate:relative):::%(committerdate:iso8601)''
       @ [CHR 0x27]"

text \<open>\<^verbatim>\<open>getGitBranches\<close>: the promise is rejected with the error of the command.\<close>

definition getGitBranches_v1 :: "world \<Rightarrow> event list \<times> string option GitBranch list flow" where
  "getGitBranches_v1 w =
     ([Exec getGitBranches_v1_cmd],
      case child_exec w getGitBranches_v1_cmd of
        Inl error \<Rightarrow> Thrown error
      | Inr stdout \<Rightarrow>
          (case getGitBranches_v1_parse stdout of
             Inl e \<Rightarrow> Thrown (js_error_message e)
           | Inr branches \<Rightarrow> Returned branches))"

text \<open>
  \<^verbatim>\<open>selectBranchNames\<close>: a sorted copy; \<^verbatim>\<open>find\<close> gives the first current record,
  \<^verbatim>\<open>filter\<close> the records that are not current.
\<close>

definition selectBranchNames_v1_sorted :: "world \<Rightarrow> 'lc GitBranch list \<Rightarrow> 'lc GitBranch list" where
  "selectBranchNames_v1_sorted w branches =
     sort_js (\<lambda>a b. localeCompare w (name a) (name b)) branches"

definition selectBranchNames_v1_choices :: "world \<Rightarrow> 'lc GitBranch list \<Rightarrow> BranchChoice list" where
  "selectBranchNames_v1_choices w branches =
     map choice_of (filter (\<lambda>branch. \<not> isCurrent branch) (selectBranchNames_v1_sorted w branches))"

definition selectBranchNames_v1 :: "world \<Rightarrow> 'lc GitBranch list \<Rightarrow> event list \<times> string list flow" where
  "selectBranchNames_v1 w branches =
     (let shown =
            (case find isCurrent (selectBranchNames_v1_sorted w branches) of
               Some currentBranch \<Rightarrow> [current_line currentBranch]
             | None \<Rightarrow> [])
            @ [PromptMultiselect (selectBranchNames_v1_choices w branches)]
      in case prompt_multiselect w (selectBranchNames_v1_choices w branches) of
           Some branchNames \<Rightarrow> (shown, Returned branchNames)
         | None \<Rightarrow>
             (shown @ [Log (colors_blue ''Exiting without deleting any branches.'')], Exited 0))"

text \<open>\<^verbatim>\<open>input === "yes" || input === "no"\<close>\<close>

definition askForConfirmation_validate :: "string \<Rightarrow> bool" where
  "askForConfirmation_validate input = (input = ''yes'' \<or> input = ''no'')"

text \<open>
  \<^verbatim>\<open>askForConfirmation\<close>: nothing catches the rejection of a cancelled prompt; the
  prompt library rejects with the empty string.
\<close>

definition askForConfirmation :: "world \<Rightarrow> string list \<Rightarrow> event list \<times> bool flow" where
  "askForConfirmation w branchesToDelete =
     ([Log (colors_red_bold_underline ''You have selected these branches to delete:''),
       Log (join (numbered branchesToDelete) ''\<newline>''),
       PromptInput (confirm_message branchesToDelete)],
      case prompt_input askForConfirmation_validate w of
        Some confirmation \<Rightarrow> Returned (confirmation = ''yes'')
      | None \<Rightarrow> Thrown [])"

definition deleteBranches_v1_cmd :: "string \<Rightarrow> string" where
  "deleteBranches_v1_cmd branchName = ''git branch -D '' @ quoted branchName"

text \<open>
  \<^verbatim>\<open>deleteBranches\<close>: every command is printed and started while the list is mapped;
  the callbacks follow, taken here in the order of the list (the runtime may call them
  in another order). \<^verbatim>\<open>Promise.all\<close> rejects with the error of a failed command.
\<close>

definition deleteBranches_v1_callback :: "world \<Rightarrow> string \<Rightarrow> event" where
  "deleteBranches_v1_callback w branchName =
     (case child_exec w (deleteBranches_v1_cmd branchName) of
        Inl error \<Rightarrow> LogError (''Error deleting branch '' @ branchName @ '': '' @ error)
      | Inr stdout \<Rightarrow> Log stdout)"

definition deleteBranches_v1 :: "world \<Rightarrow> string list \<Rightarrow> event list \<times> unit flow" where
  "deleteBranches_v1 w branchesToDelete =
     (let started =
            concat (map (\<lambda>branchName.
              [Log (deleteBranches_v1_cmd branchName), Exec (deleteBranches_v1_cmd branchName)])
              branchesToDelete);
          finished = map (deleteBranches_v1_callback w) branchesToDelete
      in case List.map_filter (\<lambda>branchName.
                case child_exec w (deleteBranches_v1_cmd branchName) of
                  Inl error \<Rightarrow> Some error
                | Inr stdout \<Rightarrow> None) branchesToDelete of
           [] \<Rightarrow>
             (started @ finished @ [Log (colors_green ''All selected branches deleted.'')],
              Returned ())
         | error # _ \<Rightarrow> (started @ finished, Thrown error))"

text \<open>
  \<^verbatim>\<open>main\<close>: only the call of \<^verbatim>\<open>deleteBranches\<close> stands in a \<^verbatim>\<open>try\<close> block, and its
  \<^verbatim>\<open>catch\<close> block prints the error and returns.
\<close>

definition main_v1 :: "world \<Rightarrow> event list \<times> unit flow" where
  "main_v1 w =
     (if \<not> isGitRepository w then
        ([Log (colors_blue
            ''This is not a Git repository. Please go to a directoy with .git directory.'')],
         Returned ())
      else
        and_then (getGitBranches_v1 w) (\<lambda>branches.
          if length branches = 1 \<and> isCurrent (branches ! 0) then
            ([Log (colors_blue
                ''There is only one branch (the current branch). Nothing to do.'')],
             Returned ())
          else
            and_then (selectBranchNames_v1 w branches) (\<lambda>branchesToDelete.
              if length branchesToDelete = 0 then ([], Returned ())
              else
                and_then (askForConfirmation w branchesToDelete) (\<lambda>confirmed.
                  if \<not> confirmed then ([Log ''No branches deleted.''], Returned ())
                  else
                    (case deleteBranches_v1 w branchesToDelete of
                       (ev, Thrown error) \<Rightarrow>
                         (ev @ [LogError (''An error occurred while deleting branches: '' @ error)],
                          Returned ())
                     | (ev, r) \<Rightarrow> (ev, r))))))"

text \<open>An \<^verbatim>\<open>exec\<close> of the force-delete command of the version-control system.\<close>

definition is_delete :: "event \<Rightarrow> bool" where
  "is_delete e = (case e of Exec command \<Rightarrow> startsWith command ''git branch -D '' | _ \<Rightarrow> False)"

definition is_select_prompt :: "event \<Rightarrow> bool" where
  "is_select_prompt e = (case e of PromptMultiselect choices \<Rightarrow> True | _ \<Rightarrow> False)"

definition is_confirm_prompt :: "event \<Rightarrow> bool" where
  "is_confirm_prompt e = (case e of PromptInput message \<Rightarrow> True | _ \<Rightarrow> False)"

definition is_exec :: "event \<Rightarrow> bool" where
  "is_exec e = (case e of Exec command \<Rightarrow> True | _ \<Rightarrow> False)"

subsection \<open>Sample runs\<close>

text \<open>A collation for the sample runs: code unit by code unit.\<close>

fun compare_units :: "string \<Rightarrow> string \<Rightarrow> int" where
  "compare_units [] [] = 0"
| "compare_units [] (y # ys) = - 1"
| "compare_units (x # xs) [] = 1"
| "compare_units (x # xs) (y # ys) =
     (if (of_char x :: nat) < of_char y then - 1
      else if (of_char y :: nat) < of_char x then 1
      else compare_units xs ys)"

text \<open>
  A run inside the repository \<^verbatim>\<open>/home/repo\<close>: what the enumeration command of either
  file prints, how every other command ends, what the user selects and which lines the
  user submits at the confirmation prompt.
\<close>

definition scenario ::
  "string \<Rightarrow> string \<Rightarrow> string + string \<Rightarrow> string list option \<Rightarrow> string list \<Rightarrow> world" where
  "scenario listing listing_v1 deletion selection lines =
     \<lparr> process_cwd = [''home'', ''repo''],
       fs_existsSync = (\<lambda>p. p = [''home'', ''repo'', ''.git'']),
       child_exec = (\<lambda>command.
         if command = getGitBranches_cmd then Inr listing
         else if command = getGitBranches_v1_cmd then Inr listing_v1
         else deletion),
       localeCompare = compare_units,
       prompt_multiselect = (\<lambda>choices. selection),
       prompt_lines = lines \<rparr>"

definition three_branches :: string where
  "three_branches =
     ''*main:::2 hours ago:::2024-01-01\<newline> feature-b:::3 days ago:::2023-12-29\<newline> feature-a:::4 days ago:::2023-12-28\<newline>''"

definition three_branches_v1 :: string where
  "three_branches_v1 =
     ''*:main:::2 hours ago:::2024-01-01\<newline> :feature-b:::3 days ago:::2023-12-29\<newline> :feature-a:::4 days ago:::2023-12-28\<newline>''"

definition one_branch :: string where
  "one_branch = ''*main:::2 hours ago:::2024-01-01\<newline>''"

definition one_branch_v1 :: string where
  "one_branch_v1 = ''*:main:::2 hours ago:::2024-01-01\<newline>''"

text \<open>The output when \<open>HEAD\<close> is on an unborn branch: no line carries the marker.\<close>

definition no_current_branch :: string where
  "no_current_branch = '' feature:::3 days ago:::2023-12-29\<newline>''"

definition no_current_branch_v1 :: string where
  "no_current_branch_v1 = '' :feature:::3 days ago:::2023-12-29\<newline>''"

text \<open>A run in \<^verbatim>\<open>/home\<close> on a machine whose only \<^verbatim>\<open>.git\<close> directory is \<^verbatim>\<open>/.git\<close>.\<close>

definition repository_at_root :: world where
  "repository_at_root =
     (scenario one_branch one_branch_v1 (Inl ''unused'') None [])
       \<lparr> process_cwd := [''home''], fs_existsSync := (\<lambda>p. p = [''.git'']) \<rparr>"

section \<open>Properties\<close>

subsection \<open>Splitting and mapping\<close>

lemma split_from_not_Nil: "split_from sep cur s \<noteq> []"
  by (induction sep cur s rule: split_from.induct) auto

lemma split_js_not_Nil: "sep \<noteq> [] \<Longrightarrow> split_js s sep \<noteq> []"
  by (simp add: split_js_def split_from_not_Nil)

lemma map_raising_total:
  "(\<And>x. \<exists>y. f x = Inr y) \<Longrightarrow> \<exists>ys. map_raising f xs = Inr ys"
proof (induction xs)
  case Nil
  then show ?case by simp
next
  case (Cons x xs)
  then obtain y ys where "f x = Inr y" "map_raising f xs = Inr ys" by metis
  then show ?case by simp
qed

lemma getGitBranches_line_Inr: "\<exists>b. getGitBranches_line line = Inr b"
proof -
  obtain prefix parts where "split_js line '':::'' = prefix # parts"
    using split_js_not_Nil [of "'':::''" line] by (cases "split_js line '':::''") auto
  then show ?thesis by (simp add: getGitBranches_line_def)
qed

lemma getGitBranches_v1_line_Inr: "\<exists>b. getGitBranches_v1_line line = Inr b"
proof -
  obtain n rest where "split_js (substring line 2) '':::'' = n # rest"
    using split_js_not_Nil [of "'':::''" "substring line 2"]
    by (cases "split_js (substring line 2) '':::''") auto
  then show ?thesis by (simp add: getGitBranches_v1_line_def)
qed

lemma getGitBranches_parse_Inr: "\<exists>branches. getGitBranches_parse stdout = Inr branches"
proof -
  obtain ys where "map_raising getGitBranches_line (split_js (trim stdout) ''\<newline>'') = Inr ys"
    using map_raising_total [of getGitBranches_line, OF getGitBranches_line_Inr] by blast
  then show ?thesis by (simp add: getGitBranches_parse_def)
qed

lemma getGitBranches_v1_parse_Inr:
  "\<exists>branches. getGitBranches_v1_parse stdout = Inr branches"
proof -
  obtain ys where "map_raising getGitBranches_v1_line (split_js stdout ''\<newline>'') = Inr ys"
    using map_raising_total [of getGitBranches_v1_line, OF getGitBranches_v1_line_Inr] by blast
  then show ?thesis by (simp add: getGitBranches_v1_parse_def)
qed

lemmas parse_defs =
  getGitBranches_parse_def getGitBranches_line_def getGitBranches_v1_parse_def
  getGitBranches_v1_line_def split_js_def startsWith_def trim_def is_space_def
  strip_marker_def substring_def

lemmas run_defs =
  scenario_def three_branches_def three_branches_v1_def one_branch_def one_branch_v1_def
  no_current_branch_def no_current_branch_v1_def repository_at_root_def
  main_def main_try_def main_v1_def and_then_def findGitRoot_def isGitRepository_def
  findGitRoot_loop.simps isGitRepository_loop.simps
  getGitBranches_def getGitBranches_v1_def selectBranchNames_def selectBranchNames_v1_def
  selectBranchNames_sorted_def selectBranchNames_choices_def selectBranchNames_v1_sorted_def
  selectBranchNames_v1_choices_def sort_js_def Number_def choice_of_def current_line_def
  confirmDeletion_def askForConfirmation_def prompt_input_def confirmDeletion_validate_def
  askForConfirmation_validate_def deleteBranches_def deleteBranches_v1_def
  deleteBranches_v1_callback_def deleteBranches_cmd_def deleteBranches_v1_cmd_def quoted_def
  numbered_def confirm_message_def getGitBranches_cmd_def getGitBranches_v1_cmd_def
  colors_blue_def colors_yellow_def colors_green_def colors_red_def
  colors_red_bold_underline_def List.map_filter_def enumerate_eq_zip Let_def
  is_delete_def is_select_prompt_def is_confirm_prompt_def is_exec_def digit_def

subsection \<open>Branch Lister\<close>

text \<open>
  C1, as the specification states it, fails. On the output
  \<^verbatim>\<open>"*:::main:::2 hours ago:::2024-01-01T00:00:00+0000\n :::feature:::3 days ago:::2023-12-29T00:00:00+0000\n"\<close>
  the first field of either line is only the marker, so \<^verbatim>\<open>src/git-branch-delete.ts\<close>
  gets two empty names and returns no record at all, and the earlier file, which drops
  two characters of each line, returns the names \<open>::main\<close> and \<open>::feature\<close>.
\<close>

theorem spec_sample_not_parsed:
  "getGitBranches_parse
     ''*:::main:::2 hours ago:::2024-01-01T00:00:00+0000\<newline> :::feature:::3 days ago:::2023-12-29T00:00:00+0000\<newline>''
   \<noteq> Inr [\<lparr>name = ''main'', lastCommitRelative = ''2 hours ago'',
             lastCommit = ''2024-01-01T00:00:00+0000'', isCurrent = True\<rparr>,
           \<lparr>name = ''feature'', lastCommitRelative = ''3 days ago'',
             lastCommit = ''2023-12-29T00:00:00+0000'', isCurrent = False\<rparr>]
   \<and> getGitBranches_parse
     ''*:::main:::2 hours ago:::2024-01-01T00:00:00+0000\<newline> :::feature:::3 days ago:::2023-12-29T00:00:00+0000\<newline>''
   = Inr []
   \<and> getGitBranches_v1_parse
     ''*:::main:::2 hours ago:::2024-01-01T00:00:00+0000\<newline> :::feature:::3 days ago:::2023-12-29T00:00:00+0000\<newline>''
   = Inr [\<lparr>name = ''::main'', lastCommitRelative = ''2 hours ago'',
             lastCommit = Some ''2024-01-01T00:00:00+0000'', isCurrent = True\<rparr>,
           \<lparr>name = ''::feature'', lastCommitRelative = ''3 days ago'',
             lastCommit = Some ''2023-12-29T00:00:00+0000'', isCurrent = False\<rparr>]"
  by (simp add: parse_defs)

text \<open>
  C1, amended: the two records are the result on the output the enumeration command of
  each file really prints. In \<^verbatim>\<open>src/git-branch-delete.ts\<close> the marker (\<open>*\<close> or a space) is
  followed by the name at once; in the earlier file a single colon stands between them.
\<close>

theorem sample_output_parsed:
  "getGitBranches_parse
     ''*main:::2 hours ago:::2024-01-01T00:00:00+0000\<newline> feature:::3 days ago:::2023-12-29T00:00:00+0000\<newline>''
   = Inr [\<lparr>name = ''main'', lastCommitRelative = ''2 hours ago'',
             lastCommit = ''2024-01-01T00:00:00+0000'', isCurrent = True\<rparr>,
           \<lparr>name = ''feature'', lastCommitRelative = ''3 days ago'',
             lastCommit = ''2023-12-29T00:00:00+0000'', isCurrent = False\<rparr>]
   \<and> getGitBranches_v1_parse
     ''*:main:::2 hours ago:::2024-01-01T00:00:00+0000\<newline> :feature:::3 days ago:::2023-12-29T00:00:00+0000\<newline>''
   = Inr [\<lparr>name = ''main'', lastCommitRelative = ''2 hours ago'',
             lastCommit = Some ''2024-01-01T00:00:00+0000'', isCurrent = True\<rparr>,
           \<lparr>name = ''feature'', lastCommitRelative = ''3 days ago'',
             lastCommit = Some ''2023-12-29T00:00:00+0000'', isCurrent = False\<rparr>]"
  by (simp add: parse_defs)

text \<open>
  A line whose split has no second field at all gets the relative time \<open>Unknown\<close>, in
  both files. Neither enumeration command prints such a line: both formats hold the
  delimiter twice.
\<close>

lemma absent_relative_time:
  "(length (split_js line '':::'') = 1 \<longrightarrow>
      (\<exists>b. getGitBranches_line line = Inr b \<and> lastCommitRelative b = ''Unknown''))
   \<and> (length (split_js (substring line 2) '':::'') = 1 \<longrightarrow>
      (\<exists>b. getGitBranches_v1_line line = Inr b \<and> lastCommitRelative b = ''Unknown''))"
  by (auto simp: getGitBranches_line_def getGitBranches_v1_line_def length_Suc_conv
      split: list.splits)

lemma split_with_delimiter:
  "split_js ''*main::::::2024-01-01T00:00:00+0000'' '':::'' =
     [''*main'', [], ''2024-01-01T00:00:00+0000'']"
  by (simp add: split_js_def startsWith_def)

text \<open>
  C8 fails for the parsing step of \<^verbatim>\<open>src/git-branch-delete.ts\<close>. On a printed line the
  relative time is missing when the field between the two delimiters is empty. The
  default of the destructuring applies to an absent element only, so the record keeps
  the empty string; the earlier file, with \<^verbatim>\<open>lastCommitRelative || "Unknown"\<close>, stores
  \<open>Unknown\<close>.
\<close>

theorem empty_relative_time_kept:
  "getGitBranches_parse ''*main::::::2024-01-01T00:00:00+0000\<newline>'' =
     Inr [\<lparr>name = ''main'', lastCommitRelative = [],
            lastCommit = ''2024-01-01T00:00:00+0000'', isCurrent = True\<rparr>]
   \<and> getGitBranches_line ''*main::::::2024-01-01T00:00:00+0000'' =
     Inr \<lparr>name = ''main'', lastCommitRelative = [],
          lastCommit = ''2024-01-01T00:00:00+0000'', isCurrent = True\<rparr>
   \<and> getGitBranches_v1_parse ''*:main::::::2024-01-01T00:00:00+0000\<newline>'' =
     Inr [\<lparr>name = ''main'', lastCommitRelative = ''Unknown'',
            lastCommit = Some ''2024-01-01T00:00:00+0000'', isCurrent = True\<rparr>]"
  by (simp add: parse_defs)

text \<open>
  C9: on every output the parsing step of either file returns a list of records and
  raises nothing, and every record of the list has a name that is not empty.
\<close>

theorem parse_total_names:
  "(\<exists>branches. getGitBranches_parse stdout = Inr branches
      \<and> (\<forall>b \<in> set branches. name b \<noteq> []))
   \<and> (\<exists>branches. getGitBranches_v1_parse stdout = Inr branches
      \<and> (\<forall>b \<in> set branches. name b \<noteq> []))"
proof
  obtain branches where p: "getGitBranches_parse stdout = Inr branches"
    using getGitBranches_parse_Inr by blast
  then have "\<forall>b \<in> set branches. name b \<noteq> []"
    by (auto simp: getGitBranches_parse_def split: sum.splits)
  with p show "\<exists>branches. getGitBranches_parse stdout = Inr branches
      \<and> (\<forall>b \<in> set branches. name b \<noteq> [])" by blast
next
  obtain branches where p: "getGitBranches_v1_parse stdout = Inr branches"
    using getGitBranches_v1_parse_Inr by blast
  then have "\<forall>b \<in> set branches. name b \<noteq> []"
    by (auto simp: getGitBranches_v1_parse_def split: sum.splits)
  with p show "\<exists>branches. getGitBranches_v1_parse stdout = Inr branches
      \<and> (\<forall>b \<in> set branches. name b \<noteq> [])" by blast
qed

theorem parse_total_names_witness:
  "getGitBranches_parse ''*main\<newline> :::x\<newline>'' =
     Inr [\<lparr>name = ''main'', lastCommitRelative = ''Unknown'', lastCommit = [], isCurrent = True\<rparr>]
   \<and> (\<exists>branches. getGitBranches_parse ''*main\<newline> :::x\<newline>'' = Inr branches
        \<and> (\<forall>b \<in> set branches. name b \<noteq> []))
   \<and> getGitBranches_v1_parse ''*:main\<newline>\<newline>'' =
     Inr [\<lparr>name = ''main'', lastCommitRelative = ''Unknown'', lastCommit = None,
           isCurrent = True\<rparr>]
   \<and> (\<exists>branches. getGitBranches_v1_parse ''*:main\<newline>\<newline>'' = Inr branches
        \<and> (\<forall>b \<in> set branches. name b \<noteq> []))"
proof -
  have e: "getGitBranches_parse ''*main\<newline> :::x\<newline>'' =
     Inr [\<lparr>name = ''main'', lastCommitRelative = ''Unknown'', lastCommit = [], isCurrent = True\<rparr>]"
    by (simp add: parse_defs)
  have t: "\<exists>branches. getGitBranches_parse ''*main\<newline> :::x\<newline>'' = Inr branches
        \<and> (\<forall>b \<in> set branches. name b \<noteq> [])"
    by (rule conjunct1 [OF parse_total_names])
  have e': "getGitBranches_v1_parse ''*:main\<newline>\<newline>'' =
     Inr [\<lparr>name = ''main'', lastCommitRelative = ''Unknown'', lastCommit = None,
           isCurrent = True\<rparr>]"
    by (simp add: parse_defs)
  have t': "\<exists>branches. getGitBranches_v1_parse ''*:main\<newline>\<newline>'' = Inr branches
        \<and> (\<forall>b \<in> set branches. name b \<noteq> [])"
    by (rule conjunct2 [OF parse_total_names])
  show ?thesis by (rule conjI [OF e conjI [OF t conjI [OF e' t']]])
qed

subsection \<open>Orchestrator\<close>

lemma list_cmd_not_delete:
  "\<not> is_delete (Exec getGitBranches_cmd)" "\<not> is_delete (Exec getGitBranches_v1_cmd)"
  by (simp_all add: is_delete_def getGitBranches_cmd_def getGitBranches_v1_cmd_def startsWith_def)

lemma selectBranchNames_events:
  "e \<in> set (fst (selectBranchNames w branches)) \<Longrightarrow> \<not> is_exec e \<and> \<not> is_confirm_prompt e"
  by (auto simp: selectBranchNames_def Let_def current_line_def is_exec_def is_confirm_prompt_def
      split: option.splits list.splits if_splits)

lemma selectBranchNames_v1_events:
  "e \<in> set (fst (selectBranchNames_v1 w branches)) \<Longrightarrow> \<not> is_exec e \<and> \<not> is_confirm_prompt e"
  by (auto simp: selectBranchNames_v1_def Let_def current_line_def is_exec_def
      is_confirm_prompt_def split: option.splits list.splits if_splits)

lemma confirmDeletion_events:
  "e \<in> set (fst (confirmDeletion w selected)) \<Longrightarrow> \<not> is_exec e"
  by (auto simp: confirmDeletion_def is_exec_def split: option.splits if_splits)

lemma askForConfirmation_events:
  "e \<in> set (fst (askForConfirmation w selected)) \<Longrightarrow> \<not> is_exec e"
  by (auto simp: askForConfirmation_def is_exec_def split: option.splits if_splits)

lemma confirmDeletion_True:
  "snd (confirmDeletion w selected) = Returned True \<Longrightarrow>
     prompt_input confirmDeletion_validate w = Some ''yes''
     \<and> PromptInput (confirm_message selected) \<in> set (fst (confirmDeletion w selected))"
  by (auto simp: confirmDeletion_def split: option.splits if_splits)

lemma askForConfirmation_True:
  "snd (askForConfirmation w selected) = Returned True \<Longrightarrow>
     prompt_input askForConfirmation_validate w = Some ''yes''
     \<and> PromptInput (confirm_message selected) \<in> set (fst (askForConfirmation w selected))"
  by (auto simp: askForConfirmation_def split: option.splits if_splits)

lemma deleteBranches_events:
  "e \<in> set (fst (deleteBranches w selected)) \<Longrightarrow> is_exec e \<Longrightarrow>
     e = Exec (deleteBranches_cmd selected)
     \<and> (\<exists>post. fst (deleteBranches w selected) = e # post)"
  by (auto simp: deleteBranches_def is_exec_def split: if_splits sum.splits)

lemma deleteBranches_v1_events:
  assumes "e \<in> set (fst (deleteBranches_v1 w selected))" and "is_exec e"
  shows "\<exists>b \<in> set selected. e = Exec (deleteBranches_v1_cmd b)"
  using assms
  by (auto simp: deleteBranches_v1_def Let_def is_exec_def deleteBranches_v1_callback_def
      split: list.splits sum.splits)

lemma is_delete_is_exec: "is_delete e \<Longrightarrow> is_exec e"
  by (cases e) (simp_all add: is_delete_def is_exec_def)


lemma fst_getGitBranches: "fst (getGitBranches w) = [Exec getGitBranches_cmd]"
  by (simp add: getGitBranches_def)

lemma fst_getGitBranches_v1: "fst (getGitBranches_v1 w) = [Exec getGitBranches_v1_cmd]"
  by (simp add: getGitBranches_v1_def)

text \<open>A run that issues a force-delete command has gone through every step before it.\<close>

lemma main_try_reaches_delete:
  assumes "e \<in> set (fst (main_try w))" and "is_delete e"
  shows "\<exists>branches selected.
           snd (getGitBranches w) = Returned branches
         \<and> snd (selectBranchNames w branches) = Returned selected
         \<and> snd (confirmDeletion w selected) = Returned True
         \<and> main_try w =
             (fst (getGitBranches w) @ fst (selectBranchNames w branches)
                @ fst (confirmDeletion w selected) @ fst (deleteBranches w selected),
              snd (deleteBranches w selected))
         \<and> e \<in> set (fst (deleteBranches w selected))"
proof -
  have x: "is_exec e" using assms(2) by (rule is_delete_is_exec)
  obtain r1 where g: "getGitBranches w = ([Exec getGitBranches_cmd], r1)"
    by (simp add: getGitBranches_def)
  have ne1: "e \<noteq> Exec getGitBranches_cmd" using assms(2) list_cmd_not_delete by auto
  have nl: "\<not> is_exec (Log t)" for t by (simp add: is_exec_def)
  show ?thesis
  proof (cases r1)
    case (Returned branches)
    obtain ev2 r2 where s: "selectBranchNames w branches = (ev2, r2)" by force
    have ne2: "e \<notin> set ev2" using selectBranchNames_events [of e w branches] s x by auto
    show ?thesis
    proof (cases r2)
      case sel: (Returned selected)
      obtain ev3 r3 where cf: "confirmDeletion w selected = (ev3, r3)" by force
      have ne3: "e \<notin> set ev3" using confirmDeletion_events [of e w selected] cf x by auto
      obtain ev4 r4 where d: "deleteBranches w selected = (ev4, r4)" by force
      show ?thesis
        using assms(1) g Returned s sel cf d ne1 ne2 ne3 x nl
        by (cases r3) (auto simp: main_try_def and_then_def split: if_splits)
    next
      case (Thrown err)
      then show ?thesis using assms(1) g Returned s ne1 ne2 x nl
        by (auto simp: main_try_def and_then_def split: if_splits)
    next
      case (Exited n)
      then show ?thesis using assms(1) g Returned s ne1 ne2 x nl
        by (auto simp: main_try_def and_then_def split: if_splits)
    qed
  next
    case (Thrown err)
    then show ?thesis using assms(1) g ne1 x nl
      by (auto simp: main_try_def and_then_def split: if_splits)
  next
    case (Exited n)
    then show ?thesis using assms(1) g ne1 x nl
      by (auto simp: main_try_def and_then_def split: if_splits)
  qed
qed

lemma main_after_try:
  "\<exists>tail. fst (main w) = fst (main_try w) @ tail \<and> (\<forall>e \<in> set tail. \<not> is_exec e)"
  by (cases "main_try w"; cases "snd (main_try w)") (auto simp: main_def is_exec_def)

lemma confirmDeletion_True_events:
  "snd (confirmDeletion w selected) = Returned True \<Longrightarrow>
     fst (confirmDeletion w selected) =
       [Log (colors_red_bold_underline ''You have selected these branches to delete:''),
        Log (join (numbered selected) ''\<newline>''),
        PromptInput (confirm_message selected)]"
  by (auto simp: confirmDeletion_def split: option.splits if_splits)

lemma askForConfirmation_fst:
  "fst (askForConfirmation w selected) =
       [Log (colors_red_bold_underline ''You have selected these branches to delete:''),
        Log (join (numbered selected) ''\<newline>''),
        PromptInput (confirm_message selected)]"
  by (simp add: askForConfirmation_def)

lemma main_reaches_delete:
  assumes "e \<in> set (fst (main w))" and "is_delete e"
  shows "\<exists>branches selected pre post.
           snd (getGitBranches w) = Returned branches
         \<and> snd (selectBranchNames w branches) = Returned selected
         \<and> snd (confirmDeletion w selected) = Returned True
         \<and> prompt_input confirmDeletion_validate w = Some ''yes''
         \<and> e = Exec (deleteBranches_cmd selected)
         \<and> fst (main w) = pre @ e # post
         \<and> pre = fst (getGitBranches w) @ fst (selectBranchNames w branches)
              @ fst (confirmDeletion w selected)
         \<and> fst (confirmDeletion w selected) =
              [Log (colors_red_bold_underline ''You have selected these branches to delete:''),
               Log (join (numbered selected) ''\<newline>''),
               PromptInput (confirm_message selected)]
         \<and> PromptInput (confirm_message selected) \<in> set pre"
proof -
  have x: "is_exec e" using assms(2) by (rule is_delete_is_exec)
  obtain tail where t: "fst (main w) = fst (main_try w) @ tail" "\<forall>e \<in> set tail. \<not> is_exec e"
    using main_after_try by blast
  with assms(1) x have "e \<in> set (fst (main_try w))" by auto
  from main_try_reaches_delete [OF this assms(2)] obtain branches selected where r:
    "snd (getGitBranches w) = Returned branches"
    "snd (selectBranchNames w branches) = Returned selected"
    "snd (confirmDeletion w selected) = Returned True"
    "main_try w =
       (fst (getGitBranches w) @ fst (selectBranchNames w branches)
          @ fst (confirmDeletion w selected) @ fst (deleteBranches w selected),
        snd (deleteBranches w selected))"
    "e \<in> set (fst (deleteBranches w selected))" by blast
  from deleteBranches_events [OF r(5) x] obtain post where p:
    "e = Exec (deleteBranches_cmd selected)" "fst (deleteBranches w selected) = e # post"
    by blast
  let ?pre = "fst (getGitBranches w) @ fst (selectBranchNames w branches)
                @ fst (confirmDeletion w selected)"
  have m: "fst (main w) = ?pre @ e # (post @ tail)" using t(1) r(4) p(2) by simp
  have i: "PromptInput (confirm_message selected) \<in> set ?pre"
    using confirmDeletion_True [OF r(3)] by simp
  note y = confirmDeletion_True [OF r(3), THEN conjunct1]
  note c = confirmDeletion_True_events [OF r(3)]
  show ?thesis
    apply (rule exI [of _ branches])
    apply (rule exI [of _ selected])
    apply (rule exI [of _ ?pre])
    apply (rule exI [of _ "post @ tail"])
    using r(1-3) y p(1) m c i apply blast
    done
qed

lemma main_v1_reaches_delete:
  assumes "e \<in> set (fst (main_v1 w))" and "is_delete e"
  shows "\<exists>branches selected pre post.
           snd (getGitBranches_v1 w) = Returned branches
         \<and> snd (selectBranchNames_v1 w branches) = Returned selected
         \<and> snd (askForConfirmation w selected) = Returned True
         \<and> prompt_input askForConfirmation_validate w = Some ''yes''
         \<and> (\<exists>b \<in> set selected. e = Exec (deleteBranches_v1_cmd b))
         \<and> fst (main_v1 w) = pre @ e # post
         \<and> (\<exists>started rest.
               pre = fst (getGitBranches_v1 w) @ fst (selectBranchNames_v1 w branches)
                 @ fst (askForConfirmation w selected) @ started
             \<and> fst (deleteBranches_v1 w selected) = started @ e # rest)
         \<and> fst (askForConfirmation w selected) =
              [Log (colors_red_bold_underline ''You have selected these branches to delete:''),
               Log (join (numbered selected) ''\<newline>''),
               PromptInput (confirm_message selected)]
         \<and> PromptInput (confirm_message selected) \<in> set pre"
proof -
  have x: "is_exec e" using assms(2) by (rule is_delete_is_exec)
  obtain r1 where g: "getGitBranches_v1 w = ([Exec getGitBranches_v1_cmd], r1)"
    by (simp add: getGitBranches_v1_def)
  have ne1: "e \<noteq> Exec getGitBranches_v1_cmd" using assms(2) list_cmd_not_delete by auto
  have nl: "\<not> is_exec (Log t)" "\<not> is_exec (LogError t)" for t by (simp_all add: is_exec_def)
  have reach: "\<exists>branches selected tail.
           snd (getGitBranches_v1 w) = Returned branches
         \<and> snd (selectBranchNames_v1 w branches) = Returned selected
         \<and> snd (askForConfirmation w selected) = Returned True
         \<and> fst (main_v1 w) =
             fst (getGitBranches_v1 w) @ fst (selectBranchNames_v1 w branches)
                @ fst (askForConfirmation w selected) @ fst (deleteBranches_v1 w selected) @ tail
         \<and> e \<in> set (fst (deleteBranches_v1 w selected))"
  proof (cases r1)
    case (Returned branches)
    obtain ev2 r2 where s: "selectBranchNames_v1 w branches = (ev2, r2)" by force
    have ne2: "e \<notin> set ev2" using selectBranchNames_v1_events [of e w branches] s x by auto
    show ?thesis
    proof (cases r2)
      case sel: (Returned selected)
      obtain ev3 r3 where cf: "askForConfirmation w selected = (ev3, r3)" by force
      have ne3: "e \<notin> set ev3" using askForConfirmation_events [of e w selected] cf x by auto
      obtain ev4 r4 where d: "deleteBranches_v1 w selected = (ev4, r4)" by force
      show ?thesis
        using assms(1) g Returned s sel cf d ne1 ne2 ne3 x nl
        by (cases r3; cases r4) (auto simp: main_v1_def and_then_def split: if_splits)
    next
      case (Thrown err)
      then show ?thesis using assms(1) g Returned s ne1 ne2 x nl
        by (auto simp: main_v1_def and_then_def split: if_splits)
    next
      case (Exited n)
      then show ?thesis using assms(1) g Returned s ne1 ne2 x nl
        by (auto simp: main_v1_def and_then_def split: if_splits)
    qed
  next
    case (Thrown err)
    then show ?thesis using assms(1) g ne1 x nl
      by (auto simp: main_v1_def and_then_def split: if_splits)
  next
    case (Exited n)
    then show ?thesis using assms(1) g ne1 x nl
      by (auto simp: main_v1_def and_then_def split: if_splits)
  qed
  then obtain branches selected tail where r:
    "snd (getGitBranches_v1 w) = Returned branches"
    "snd (selectBranchNames_v1 w branches) = Returned selected"
    "snd (askForConfirmation w selected) = Returned True"
    "fst (main_v1 w) =
       fst (getGitBranches_v1 w) @ fst (selectBranchNames_v1 w branches)
         @ fst (askForConfirmation w selected) @ fst (deleteBranches_v1 w selected) @ tail"
    "e \<in> set (fst (deleteBranches_v1 w selected))" by blast
  from r(5) obtain d1 d2 where sp: "fst (deleteBranches_v1 w selected) = d1 @ e # d2"
    by (auto dest: split_list)
  let ?pre = "fst (getGitBranches_v1 w) @ fst (selectBranchNames_v1 w branches)
                @ fst (askForConfirmation w selected) @ d1"
  have m: "fst (main_v1 w) = ?pre @ e # (d2 @ tail)" using r(4) sp by simp
  have i: "PromptInput (confirm_message selected) \<in> set ?pre"
    using askForConfirmation_True [OF r(3)] by simp
  have st: "\<exists>started rest.
       ?pre = fst (getGitBranches_v1 w) @ fst (selectBranchNames_v1 w branches)
                 @ fst (askForConfirmation w selected) @ started
     \<and> fst (deleteBranches_v1 w selected) = started @ e # rest"
    using sp by blast
  note y = askForConfirmation_True [OF r(3), THEN conjunct1]
  note b = deleteBranches_v1_events [OF r(5) x]
  show ?thesis
    apply (rule exI [of _ branches])
    apply (rule exI [of _ selected])
    apply (rule exI [of _ ?pre])
    apply (rule exI [of _ "d2 @ tail"])
    using r(1-3) y b m st askForConfirmation_fst [of w selected] i apply blast
    done
qed

text \<open>
  C2: a force-delete command appears in a run of either file only when the listing, the
  selection and the confirmation have returned and the confirmation has returned true
  on the line \<open>yes\<close> for the very list that was selected. The run up to the command is
  the enumeration, the selection and then the confirmation of that list: its header, the
  numbered names of the selected list and the prompt (in the earlier file followed by
  the deletions already started). The command names that list (in the earlier file:
  one of its names). In particular a run whose confirmation returns false holds no such
  command.
\<close>

theorem delete_only_after_confirmation:
  "(e \<in> set (fst (main w)) \<and> is_delete e \<longrightarrow>
      (\<exists>branches selected pre post.
           snd (getGitBranches w) = Returned branches
         \<and> snd (selectBranchNames w branches) = Returned selected
         \<and> snd (confirmDeletion w selected) = Returned True
         \<and> prompt_input confirmDeletion_validate w = Some ''yes''
         \<and> e = Exec (deleteBranches_cmd selected)
         \<and> fst (main w) = pre @ e # post
         \<and> pre = fst (getGitBranches w) @ fst (selectBranchNames w branches)
              @ fst (confirmDeletion w selected)
         \<and> fst (confirmDeletion w selected) =
              [Log (colors_red_bold_underline ''You have selected these branches to delete:''),
               Log (join (numbered selected) ''\<newline>''),
               PromptInput (confirm_message selected)]
         \<and> PromptInput (confirm_message selected) \<in> set pre))
   \<and> (e \<in> set (fst (main_v1 w)) \<and> is_delete e \<longrightarrow>
      (\<exists>branches selected pre post.
           snd (getGitBranches_v1 w) = Returned branches
         \<and> snd (selectBranchNames_v1 w branches) = Returned selected
         \<and> snd (askForConfirmation w selected) = Returned True
         \<and> prompt_input askForConfirmation_validate w = Some ''yes''
         \<and> (\<exists>b \<in> set selected. e = Exec (deleteBranches_v1_cmd b))
         \<and> fst (main_v1 w) = pre @ e # post
         \<and> (\<exists>started rest.
               pre = fst (getGitBranches_v1 w) @ fst (selectBranchNames_v1 w branches)
                 @ fst (askForConfirmation w selected) @ started
             \<and> fst (deleteBranches_v1 w selected) = started @ e # rest)
         \<and> fst (askForConfirmation w selected) =
              [Log (colors_red_bold_underline ''You have selected these branches to delete:''),
               Log (join (numbered selected) ''\<newline>''),
               PromptInput (confirm_message selected)]
         \<and> PromptInput (confirm_message selected) \<in> set pre))
   \<and> (snd (getGitBranches w) = Returned listing
        \<and> snd (selectBranchNames w listing) = Returned chosen
        \<and> snd (confirmDeletion w chosen) = Returned False
        \<longrightarrow> filter is_delete (fst (main w)) = [])
   \<and> (snd (getGitBranches_v1 w) = Returned listing_v1
        \<and> snd (selectBranchNames_v1 w listing_v1) = Returned chosen
        \<and> snd (askForConfirmation w chosen) = Returned False
        \<longrightarrow> filter is_delete (fst (main_v1 w)) = [])"
proof (intro conjI impI)
  assume a: "e \<in> set (fst (main w)) \<and> is_delete e"
  show "\<exists>branches selected pre post.
           snd (getGitBranches w) = Returned branches
         \<and> snd (selectBranchNames w branches) = Returned selected
         \<and> snd (confirmDeletion w selected) = Returned True
         \<and> prompt_input confirmDeletion_validate w = Some ''yes''
         \<and> e = Exec (deleteBranches_cmd selected)
         \<and> fst (main w) = pre @ e # post
         \<and> pre = fst (getGitBranches w) @ fst (selectBranchNames w branches)
              @ fst (confirmDeletion w selected)
         \<and> fst (confirmDeletion w selected) =
              [Log (colors_red_bold_underline ''You have selected these branches to delete:''),
               Log (join (numbered selected) ''\<newline>''),
               PromptInput (confirm_message selected)]
         \<and> PromptInput (confirm_message selected) \<in> set pre"
    by (rule main_reaches_delete [OF conjunct1 [OF a] conjunct2 [OF a]])
next
  assume a: "e \<in> set (fst (main_v1 w)) \<and> is_delete e"
  show "\<exists>branches selected pre post.
           snd (getGitBranches_v1 w) = Returned branches
         \<and> snd (selectBranchNames_v1 w branches) = Returned selected
         \<and> snd (askForConfirmation w selected) = Returned True
         \<and> prompt_input askForConfirmation_validate w = Some ''yes''
         \<and> (\<exists>b \<in> set selected. e = Exec (deleteBranches_v1_cmd b))
         \<and> fst (main_v1 w) = pre @ e # post
         \<and> (\<exists>started rest.
               pre = fst (getGitBranches_v1 w) @ fst (selectBranchNames_v1 w branches)
                 @ fst (askForConfirmation w selected) @ started
             \<and> fst (deleteBranches_v1 w selected) = started @ e # rest)
         \<and> fst (askForConfirmation w selected) =
              [Log (colors_red_bold_underline ''You have selected these branches to delete:''),
               Log (join (numbered selected) ''\<newline>''),
               PromptInput (confirm_message selected)]
         \<and> PromptInput (confirm_message selected) \<in> set pre"
    by (rule main_v1_reaches_delete [OF conjunct1 [OF a] conjunct2 [OF a]])
next
  assume a: "snd (getGitBranches w) = Returned listing
        \<and> snd (selectBranchNames w listing) = Returned chosen
        \<and> snd (confirmDeletion w chosen) = Returned False"
  have "\<not> is_delete x" if "x \<in> set (fst (main w))" for x
  proof
    assume "is_delete x"
    from main_reaches_delete [OF that this] a show False by auto
  qed
  then show "filter is_delete (fst (main w)) = []" by (simp add: filter_empty_conv)
next
  assume a: "snd (getGitBranches_v1 w) = Returned listing_v1
        \<and> snd (selectBranchNames_v1 w listing_v1) = Returned chosen
        \<and> snd (askForConfirmation w chosen) = Returned False"
  have "\<not> is_delete x" if "x \<in> set (fst (main_v1 w))" for x
  proof
    assume "is_delete x"
    from main_v1_reaches_delete [OF that this] a show False by auto
  qed
  then show "filter is_delete (fst (main_v1 w)) = []" by (simp add: filter_empty_conv)
qed

theorem delete_only_after_confirmation_witness:
  "(Exec (deleteBranches_cmd [''feature-a'', ''feature-b''])
      \<in> set (fst (main (scenario three_branches three_branches_v1 (Inr ''Deleted'')
            (Some [''feature-a'', ''feature-b'']) [''maybe'', ''yes'']))))
   \<and> is_delete (Exec (deleteBranches_cmd [''feature-a'', ''feature-b'']))
   \<and> (\<exists>post.
         fst (main (scenario three_branches three_branches_v1 (Inr ''Deleted'')
            (Some [''feature-a'', ''feature-b'']) [''maybe'', ''yes'']))
           = [Exec getGitBranches_cmd,
              Log ''Current branch: main (2 hours ago)'',
              PromptMultiselect
                [\<lparr>choice_name = ''feature-a'', choice_message = ''feature-a (4 days ago)'',
                   choice_value = ''feature-a''\<rparr>,
                 \<lparr>choice_name = ''feature-b'', choice_message = ''feature-b (3 days ago)'',
                   choice_value = ''feature-b''\<rparr>],
              Log ''You have selected these branches to delete:'',
              Log '' 1. feature-a\<newline> 2. feature-b'',
              PromptInput ''Delete these 2 branches? Type yes or no'']
             @ Exec (deleteBranches_cmd [''feature-a'', ''feature-b'']) # post)
   \<and> (Exec (deleteBranches_v1_cmd ''feature-b'')
      \<in> set (fst (main_v1 (scenario three_branches three_branches_v1 (Inr ''Deleted'')
            (Some [''feature-a'', ''feature-b'']) [''maybe'', ''yes'']))))
   \<and> is_delete (Exec (deleteBranches_v1_cmd ''feature-b''))
   \<and> (\<exists>started post.
         fst (main_v1 (scenario three_branches three_branches_v1 (Inr ''Deleted'')
            (Some [''feature-a'', ''feature-b'']) [''maybe'', ''yes'']))
           = [Exec getGitBranches_v1_cmd,
              Log ''Current branch: main (2 hours ago)'',
              PromptMultiselect
                [\<lparr>choice_name = ''feature-a'', choice_message = ''feature-a (4 days ago)'',
                   choice_value = ''feature-a''\<rparr>,
                 \<lparr>choice_name = ''feature-b'', choice_message = ''feature-b (3 days ago)'',
                   choice_value = ''feature-b''\<rparr>],
              Log ''You have selected these branches to delete:'',
              Log '' 1. feature-a\<newline> 2. feature-b'',
              PromptInput ''Delete these 2 branches? Type yes or no'']
             @ started @ Exec (deleteBranches_v1_cmd ''feature-b'') # post)
   \<and> snd (confirmDeletion (scenario three_branches three_branches_v1 (Inr ''Deleted'')
            (Some [''feature-a'']) [''maybe'', ''no'']) [''feature-a'']) = Returned False
   \<and> filter is_delete (fst (main (scenario three_branches three_branches_v1 (Inr ''Deleted'')
            (Some [''feature-a'']) [''maybe'', ''no'']))) = []
   \<and> snd (askForConfirmation (scenario three_branches three_branches_v1 (Inr ''Deleted'')
            (Some [''feature-a'']) [''maybe'', ''no'']) [''feature-a'']) = Returned False
   \<and> filter is_delete (fst (main_v1 (scenario three_branches three_branches_v1 (Inr ''Deleted'')
            (Some [''feature-a'']) [''maybe'', ''no'']))) = []"
proof -
  let ?yes = "scenario three_branches three_branches_v1 (Inr ''Deleted'')
            (Some [''feature-a'', ''feature-b'']) [''maybe'', ''yes'']"
  let ?no = "scenario three_branches three_branches_v1 (Inr ''Deleted'')
            (Some [''feature-a'']) [''maybe'', ''no'']"
  let ?e = "Exec (deleteBranches_cmd [''feature-a'', ''feature-b''])"
  let ?e' = "Exec (deleteBranches_v1_cmd ''feature-b'')"
  let ?listing = "[\<lparr>name = ''main'', lastCommitRelative = ''2 hours ago'',
         lastCommit = ''2024-01-01'', isCurrent = True\<rparr>,
       \<lparr>name = ''feature-b'', lastCommitRelative = ''3 days ago'',
         lastCommit = ''2023-12-29'', isCurrent = False\<rparr>,
       \<lparr>name = ''feature-a'', lastCommitRelative = ''4 days ago'',
         lastCommit = ''2023-12-28'', isCurrent = False\<rparr>]"
  let ?listing' = "[\<lparr>name = ''main'', lastCommitRelative = ''2 hours ago'',
         lastCommit = Some ''2024-01-01'', isCurrent = True\<rparr>,
       \<lparr>name = ''feature-b'', lastCommitRelative = ''3 days ago'',
         lastCommit = Some ''2023-12-29'', isCurrent = False\<rparr>,
       \<lparr>name = ''feature-a'', lastCommitRelative = ''4 days ago'',
         lastCommit = Some ''2023-12-28'', isCurrent = False\<rparr>]"
  let ?shown = "[Log ''Current branch: main (2 hours ago)'',
              PromptMultiselect
                [\<lparr>choice_name = ''feature-a'', choice_message = ''feature-a (4 days ago)'',
                   choice_value = ''feature-a''\<rparr>,
                 \<lparr>choice_name = ''feature-b'', choice_message = ''feature-b (3 days ago)'',
                   choice_value = ''feature-b''\<rparr>]]"
  let ?asked = "[Log ''You have selected these branches to delete:'',
              Log '' 1. feature-a\<newline> 2. feature-b'',
              PromptInput ''Delete these 2 branches? Type yes or no'']"
  have m: "?e \<in> set (fst (main ?yes))"
    by (simp add: run_defs parse_defs)
  have d: "is_delete ?e"
    by (simp add: is_delete_def deleteBranches_cmd_def startsWith_def)
  have m': "?e' \<in> set (fst (main_v1 ?yes))"
    by (simp add: run_defs parse_defs)
  have d': "is_delete ?e'"
    by (simp add: is_delete_def deleteBranches_v1_cmd_def startsWith_def)
  have g: "getGitBranches ?yes = ([Exec getGitBranches_cmd], Returned ?listing)"
    by (simp add: run_defs parse_defs)
  have s: "selectBranchNames ?yes ?listing = (?shown, Returned [''feature-a'', ''feature-b''])"
    by (simp add: run_defs)
  have c: "fst (confirmDeletion ?yes [''feature-a'', ''feature-b'']) = ?asked"
    by (simp add: run_defs)
  have g': "getGitBranches_v1 ?yes = ([Exec getGitBranches_v1_cmd], Returned ?listing')"
    by (simp add: run_defs parse_defs)
  have s': "selectBranchNames_v1 ?yes ?listing' =
      (?shown, Returned [''feature-a'', ''feature-b''])"
    by (simp add: run_defs)
  have c': "fst (askForConfirmation ?yes [''feature-a'', ''feature-b'']) = ?asked"
    by (simp add: run_defs)
  have n: "snd (getGitBranches ?no) = Returned ?listing
    \<and> snd (selectBranchNames ?no ?listing) = Returned [''feature-a'']
    \<and> snd (confirmDeletion ?no [''feature-a'']) = Returned False"
    by (simp add: run_defs parse_defs)
  have n': "snd (getGitBranches_v1 ?no) = Returned ?listing'
    \<and> snd (selectBranchNames_v1 ?no ?listing') = Returned [''feature-a'']
    \<and> snd (askForConfirmation ?no [''feature-a'']) = Returned False"
    by (simp add: run_defs parse_defs)
  from delete_only_after_confirmation [of ?e ?yes] m d
  obtain branches selected pre post where r:
    "snd (getGitBranches ?yes) = Returned branches"
    "snd (selectBranchNames ?yes branches) = Returned selected"
    "fst (main ?yes) = pre @ ?e # post"
    "pre = fst (getGitBranches ?yes) @ fst (selectBranchNames ?yes branches)
              @ fst (confirmDeletion ?yes selected)"
    by blast
  from r(1) g have "branches = ?listing" by simp
  with r(2) s have "selected = [''feature-a'', ''feature-b'']" by simp
  with r(3,4) \<open>branches = ?listing\<close> g s c
  have y: "\<exists>post. fst (main ?yes) = ([Exec getGitBranches_cmd] @ ?shown @ ?asked) @ ?e # post"
    by simp
  from delete_only_after_confirmation [of ?e' ?yes] m' d'
  obtain branches' selected' pre' post' started rest where r':
    "snd (getGitBranches_v1 ?yes) = Returned branches'"
    "snd (selectBranchNames_v1 ?yes branches') = Returned selected'"
    "fst (main_v1 ?yes) = pre' @ ?e' # post'"
    "pre' = fst (getGitBranches_v1 ?yes) @ fst (selectBranchNames_v1 ?yes branches')
              @ fst (askForConfirmation ?yes selected') @ started"
    by blast
  from r'(1) g' have b': "branches' = ?listing'" by simp
  with r'(2) s' have "selected' = [''feature-a'', ''feature-b'']" by simp
  with r'(3,4) b' g' s' c'
  have "fst (main_v1 ?yes) =
      ([Exec getGitBranches_v1_cmd] @ ?shown @ ?asked) @ started @ ?e' # post'"
    by simp
  then have y': "\<exists>started post. fst (main_v1 ?yes) =
      ([Exec getGitBranches_v1_cmd] @ ?shown @ ?asked) @ started @ ?e' # post"
    by blast
  from delete_only_after_confirmation [of _ ?no] n
  have z: "filter is_delete (fst (main ?no)) = []" by blast
  from delete_only_after_confirmation [of _ ?no] n'
  have z': "filter is_delete (fst (main_v1 ?no)) = []" by blast
  from m d y m' d' y' n z n' z' show ?thesis by simp
qed

text \<open>
  C7: when the listing is one record and that record is current, the run of either file
  is the enumeration command followed by the nothing-to-do message; it ends there, with
  no selection prompt and no force-delete command.
\<close>

theorem single_current_branch_early_exit:
  "(findGitRoot w \<and> snd (getGitBranches w) = Returned [b] \<and> isCurrent b \<longrightarrow>
      main w =
        ([Exec getGitBranches_cmd,
          Log (colors_blue ''Only one branch (current) exists. Nothing to do.'')], Returned ())
      \<and> filter (\<lambda>e. is_select_prompt e \<or> is_delete e) (fst (main w)) = [])
   \<and> (isGitRepository w \<and> snd (getGitBranches_v1 w) = Returned [b'] \<and> isCurrent b' \<longrightarrow>
      main_v1 w =
        ([Exec getGitBranches_v1_cmd,
          Log (colors_blue ''There is only one branch (the current branch). Nothing to do.'')],
         Returned ())
      \<and> filter (\<lambda>e. is_select_prompt e \<or> is_delete e) (fst (main_v1 w)) = [])"
proof (intro conjI impI)
  assume a: "findGitRoot w \<and> snd (getGitBranches w) = Returned [b] \<and> isCurrent b"
  then have g: "getGitBranches w = ([Exec getGitBranches_cmd], Returned [b])"
    using fst_getGitBranches [of w] by (cases "getGitBranches w") simp
  show m: "main w =
        ([Exec getGitBranches_cmd,
          Log (colors_blue ''Only one branch (current) exists. Nothing to do.'')], Returned ())"
    using a g by (simp add: main_def main_try_def and_then_def)
  show "filter (\<lambda>e. is_select_prompt e \<or> is_delete e) (fst (main w)) = []"
    using list_cmd_not_delete by (simp add: m is_select_prompt_def is_delete_def)
next
  assume a: "isGitRepository w \<and> snd (getGitBranches_v1 w) = Returned [b'] \<and> isCurrent b'"
  then have g: "getGitBranches_v1 w = ([Exec getGitBranches_v1_cmd], Returned [b'])"
    using fst_getGitBranches_v1 [of w] by (cases "getGitBranches_v1 w") simp
  show m: "main_v1 w =
        ([Exec getGitBranches_v1_cmd,
          Log (colors_blue ''There is only one branch (the current branch). Nothing to do.'')],
         Returned ())"
    using a g by (simp add: main_v1_def and_then_def)
  show "filter (\<lambda>e. is_select_prompt e \<or> is_delete e) (fst (main_v1 w)) = []"
    using list_cmd_not_delete by (simp add: m is_select_prompt_def is_delete_def)
qed

theorem single_current_branch_early_exit_witness:
  "findGitRoot (scenario one_branch one_branch_v1 (Inl ''unused'') None [])
   \<and> snd (getGitBranches (scenario one_branch one_branch_v1 (Inl ''unused'') None [])) =
       Returned [\<lparr>name = ''main'', lastCommitRelative = ''2 hours ago'',
                  lastCommit = ''2024-01-01'', isCurrent = True\<rparr>]
   \<and> isGitRepository (scenario one_branch one_branch_v1 (Inl ''unused'') None [])
   \<and> snd (getGitBranches_v1 (scenario one_branch one_branch_v1 (Inl ''unused'') None [])) =
       Returned [\<lparr>name = ''main'', lastCommitRelative = ''2 hours ago'',
                  lastCommit = Some ''2024-01-01'', isCurrent = True\<rparr>]
   \<and> main (scenario one_branch one_branch_v1 (Inl ''unused'') None []) =
        ([Exec getGitBranches_cmd,
          Log (colors_blue ''Only one branch (current) exists. Nothing to do.'')], Returned ())
   \<and> filter (\<lambda>e. is_select_prompt e \<or> is_delete e)
        (fst (main_v1 (scenario one_branch one_branch_v1 (Inl ''unused'') None []))) = []"
proof -
  let ?w = "scenario one_branch one_branch_v1 (Inl ''unused'') None []"
  let ?b = "\<lparr>name = ''main'', lastCommitRelative = ''2 hours ago'',
                  lastCommit = ''2024-01-01'', isCurrent = True\<rparr>"
  let ?b' = "\<lparr>name = ''main'', lastCommitRelative = ''2 hours ago'',
                  lastCommit = Some ''2024-01-01'', isCurrent = True\<rparr>"
  have r: "findGitRoot ?w" "isGitRepository ?w"
    by (simp_all add: findGitRoot_def isGitRepository_def scenario_def
        findGitRoot_loop.simps isGitRepository_loop.simps)
  have g: "snd (getGitBranches ?w) = Returned [?b]"
    by (simp add: getGitBranches_def scenario_def one_branch_def parse_defs)
  have g': "snd (getGitBranches_v1 ?w) = Returned [?b']"
    by (simp add: getGitBranches_v1_def scenario_def one_branch_v1_def parse_defs
        getGitBranches_cmd_def getGitBranches_v1_cmd_def)
  have c: "isCurrent ?b" "isCurrent ?b'" by simp_all
  from single_current_branch_early_exit [of ?w ?b ?b'] r g g' c
  have "main ?w =
        ([Exec getGitBranches_cmd,
          Log (colors_blue ''Only one branch (current) exists. Nothing to do.'')], Returned ())"
    and "filter (\<lambda>e. is_select_prompt e \<or> is_delete e) (fst (main_v1 ?w)) = []"
    by blast+
  with r g g' show ?thesis by blast
qed

subsection \<open>Branch Deleter\<close>

text \<open>
  C10: for a list of names that is not empty, \<open>deleteBranches\<close> of
  \<^verbatim>\<open>src/git-branch-delete.ts\<close> runs exactly one external command, and the command is
  \<^verbatim>\<open>git branch -D\<close> followed by the names in the order of the list, each between single
  quotes, separated by one space.
\<close>

theorem deleteBranches_single_batched_command:
  "branches \<noteq> [] \<Longrightarrow>
     filter is_exec (fst (deleteBranches w branches)) =
       [Exec (''git branch -D ''
          @ join (map (\<lambda>b. [CHR 0x27] @ b @ [CHR 0x27]) branches) '' '')]"
proof -
  assume n: "branches \<noteq> []"
  have q: "quoted = (\<lambda>b. [CHR 0x27] @ b @ [CHR 0x27])"
    by (simp add: fun_eq_iff quoted_def)
  show ?thesis
    using n by (simp add: deleteBranches_def deleteBranches_cmd_def q is_exec_def split: sum.splits)
qed

theorem deleteBranches_single_batched_command_witness:
  "[''feature-a'', ''feature-b''] \<noteq> []
   \<and> filter is_exec (fst (deleteBranches
        (scenario three_branches three_branches_v1 (Inr ''Deleted'') None [])
        [''feature-a'', ''feature-b''])) =
       [Exec (''git branch -D '' @ [CHR 0x27] @ ''feature-a'' @ [CHR 0x27] @ '' ''
                @ [CHR 0x27] @ ''feature-b'' @ [CHR 0x27])]"
proof -
  have n: "[''feature-a'', ''feature-b''] \<noteq> []" by simp
  from deleteBranches_single_batched_command [OF n] n show ?thesis by simp
qed

subsection \<open>Repository Locator\<close>

lemma findGitRoot_loop_iff:
  "findGitRoot_loop w dir \<longleftrightarrow>
     (\<exists>n. 0 < n \<and> n \<le> length dir \<and> fs_existsSync w (take n dir @ [''.git'']))"
proof (induction w dir rule: findGitRoot_loop.induct)
  case (1 w dir)
  show ?case
  proof (cases "dir = []")
    case True
    then show ?thesis by (subst findGitRoot_loop.simps) simp
  next
    case ne: False
    show ?thesis
    proof (cases "fs_existsSync w (dir @ [''.git''])")
      case True
      then have "0 < length dir \<and> length dir \<le> length dir
          \<and> fs_existsSync w (take (length dir) dir @ [''.git''])" using ne by simp
      then have "\<exists>n. 0 < n \<and> n \<le> length dir \<and> fs_existsSync w (take n dir @ [''.git''])"
        by blast
      moreover have "findGitRoot_loop w dir"
        using True ne by (subst findGitRoot_loop.simps) simp
      ultimately show ?thesis by simp
    next
      case False
      have "findGitRoot_loop w dir = findGitRoot_loop w (butlast dir)"
        using False ne by (subst findGitRoot_loop.simps) simp
      also have "\<dots> \<longleftrightarrow> (\<exists>n. 0 < n \<and> n \<le> length (butlast dir)
          \<and> fs_existsSync w (take n (butlast dir) @ [''.git'']))"
        using "1.IH" [OF ne False] .
      also have "\<dots> \<longleftrightarrow> (\<exists>n. 0 < n \<and> n \<le> length dir
          \<and> fs_existsSync w (take n dir @ [''.git'']))"
      proof
        assume "\<exists>n. 0 < n \<and> n \<le> length (butlast dir)
          \<and> fs_existsSync w (take n (butlast dir) @ [''.git''])"
        then obtain n where n: "0 < n" "n \<le> length dir - 1"
          "fs_existsSync w (take n (butlast dir) @ [''.git''])" by auto
        then have "take n (butlast dir) = take n dir" by (simp add: take_butlast butlast_conv_take)
        with n show "\<exists>n. 0 < n \<and> n \<le> length dir \<and> fs_existsSync w (take n dir @ [''.git''])"
          by (intro exI [of _ n]) auto
      next
        assume "\<exists>n. 0 < n \<and> n \<le> length dir \<and> fs_existsSync w (take n dir @ [''.git''])"
        then obtain n where n: "0 < n" "n \<le> length dir"
          "fs_existsSync w (take n dir @ [''.git''])" by auto
        with False have "n \<noteq> length dir" by auto
        with n have lt: "n \<le> length dir - 1" by simp
        then have "take n (butlast dir) = take n dir" by (simp add: butlast_conv_take)
        with n lt show "\<exists>n. 0 < n \<and> n \<le> length (butlast dir)
          \<and> fs_existsSync w (take n (butlast dir) @ [''.git''])"
          by (intro exI [of _ n]) auto
      qed
      finally show ?thesis .
    qed
  qed
qed

lemma isGitRepository_loop_iff:
  "isGitRepository_loop w dir \<longleftrightarrow>
     (\<exists>n. n \<le> length dir \<and> fs_existsSync w (take n dir @ [''.git'']))"
proof (induction w dir rule: isGitRepository_loop.induct)
  case (1 w dir)
  show ?case
  proof (cases "fs_existsSync w (dir @ [''.git''])")
    case True
    then have "length dir \<le> length dir \<and> fs_existsSync w (take (length dir) dir @ [''.git''])"
      by simp
    then have "\<exists>n. n \<le> length dir \<and> fs_existsSync w (take n dir @ [''.git''])" by blast
    moreover have "isGitRepository_loop w dir"
      using True by (subst isGitRepository_loop.simps) simp
    ultimately show ?thesis by simp
  next
    case False
    show ?thesis
    proof (cases "dir = []")
      case True
      with False show ?thesis by (subst isGitRepository_loop.simps) simp
    next
      case ne: False
      have "isGitRepository_loop w dir = isGitRepository_loop w (butlast dir)"
        using False ne by (subst isGitRepository_loop.simps) simp
      also have "\<dots> \<longleftrightarrow> (\<exists>n. n \<le> length (butlast dir)
          \<and> fs_existsSync w (take n (butlast dir) @ [''.git'']))"
        using "1.IH" [OF False ne] .
      also have "\<dots> \<longleftrightarrow> (\<exists>n. n \<le> length dir \<and> fs_existsSync w (take n dir @ [''.git'']))"
      proof
        assume "\<exists>n. n \<le> length (butlast dir)
          \<and> fs_existsSync w (take n (butlast dir) @ [''.git''])"
        then obtain n where n: "n \<le> length dir - 1"
          "fs_existsSync w (take n (butlast dir) @ [''.git''])" by auto
        then have "take n (butlast dir) = take n dir" by (simp add: butlast_conv_take)
        with n show "\<exists>n. n \<le> length dir \<and> fs_existsSync w (take n dir @ [''.git''])"
          by (intro exI [of _ n]) auto
      next
        assume "\<exists>n. n \<le> length dir \<and> fs_existsSync w (take n dir @ [''.git''])"
        then obtain n where n: "n \<le> length dir"
          "fs_existsSync w (take n dir @ [''.git''])" by auto
        with False have "n \<noteq> length dir" by auto
        with n have lt: "n \<le> length dir - 1" by simp
        then have "take n (butlast dir) = take n dir" by (simp add: butlast_conv_take)
        with n lt show "\<exists>n. n \<le> length (butlast dir)
          \<and> fs_existsSync w (take n (butlast dir) @ [''.git''])"
          by (intro exI [of _ n]) auto
      qed
      finally show ?thesis .
    qed
  qed
qed

text \<open>
  The earlier file finds a repository exactly when the working directory or one of its
  ancestors, the root among them, holds \<^verbatim>\<open>.git\<close>; \<^verbatim>\<open>src/git-branch-delete.ts\<close> looks in
  all of them but the root.
\<close>

lemma isGitRepository_iff:
  "isGitRepository w \<longleftrightarrow>
     (\<exists>n. n \<le> length (process_cwd w) \<and> fs_existsSync w (take n (process_cwd w) @ [''.git'']))"
  by (simp add: isGitRepository_def isGitRepository_loop_iff)

lemma findGitRoot_iff:
  "findGitRoot w \<longleftrightarrow>
     (\<exists>n. 0 < n \<and> n \<le> length (process_cwd w)
        \<and> fs_existsSync w (take n (process_cwd w) @ [''.git'']))"
  by (simp add: findGitRoot_def findGitRoot_loop_iff)

text \<open>
  C5 fails for \<open>findGitRoot\<close> of \<^verbatim>\<open>src/git-branch-delete.ts\<close>: its loop ends when it
  arrives at the root, before looking there. In \<^verbatim>\<open>/home\<close>, with \<^verbatim>\<open>/.git\<close> the only
  repository directory, it answers false and \<open>main\<close> reports that there is no
  repository; \<open>isGitRepository\<close> of the earlier file answers true.
\<close>

theorem findGitRoot_misses_root:
  "process_cwd repository_at_root = [''home'']
   \<and> fs_existsSync repository_at_root [''.git'']
   \<and> findGitRoot repository_at_root = False
   \<and> isGitRepository repository_at_root = True
   \<and> fst (main repository_at_root) =
       [Log (colors_blue
          ''Not a Git repository. Please navigate to a directory with a .git folder.'')]"
  by (simp add: run_defs)

subsection \<open>Branch Selector\<close>

lemma mset_insert_by: "mset (insert_by cmp x xs) = add_mset x (mset xs)"
  by (induction xs) auto

lemma mset_sort_js: "mset (sort_js cmp xs) = mset xs"
  by (induction xs) (simp_all add: sort_js_def mset_insert_by)

lemma choice_name_choice_of: "choice_name (choice_of b) = name b"
  by (simp add: choice_of_def)

lemma selectBranchNames_v1_choices_exact:
  "mset (map choice_name (selectBranchNames_v1_choices w branches)) =
     mset (map name (filter (\<lambda>b. \<not> isCurrent b) branches))"
proof -
  have "mset (filter (\<lambda>b. \<not> isCurrent b) (selectBranchNames_v1_sorted w branches)) =
      mset (filter (\<lambda>b. \<not> isCurrent b) branches)"
    by (simp add: selectBranchNames_v1_sorted_def mset_sort_js)
  then have "mset (map name (filter (\<lambda>b. \<not> isCurrent b) (selectBranchNames_v1_sorted w branches))) =
      mset (map name (filter (\<lambda>b. \<not> isCurrent b) branches))"
    by (metis mset_map)
  then show ?thesis
    by (simp add: selectBranchNames_v1_choices_def comp_def choice_name_choice_of)
qed

text \<open>Sorting by \<open>isCurrent\<close> descending puts a current record first when there is one.\<close>

lemma insert_by_current_first:
  "insert_by (\<lambda>a b. Number (isCurrent b) - Number (isCurrent a)) x ys \<noteq> []
   \<and> (isCurrent (hd (insert_by (\<lambda>a b. Number (isCurrent b) - Number (isCurrent a)) x ys))
        \<longleftrightarrow> isCurrent x \<or> (ys \<noteq> [] \<and> isCurrent (hd ys)))"
  by (cases ys) (auto simp: Number_def)

lemma sort_current_first:
  "xs \<noteq> [] \<Longrightarrow>
     sort_js (\<lambda>a b. Number (isCurrent b) - Number (isCurrent a)) xs \<noteq> []
     \<and> (isCurrent (hd (sort_js (\<lambda>a b. Number (isCurrent b) - Number (isCurrent a)) xs))
          \<longleftrightarrow> (\<exists>b \<in> set xs. isCurrent b))"
proof (induction xs)
  case Nil
  then show ?case by simp
next
  case (Cons x xs)
  show ?case
  proof (cases "xs = []")
    case True
    then show ?thesis by (simp add: sort_js_def)
  next
    case False
    with Cons.IH insert_by_current_first [of x "sort_js (\<lambda>a b. Number (isCurrent b) - Number (isCurrent a)) xs"]
    show ?thesis by (auto simp: sort_js_def)
  qed
qed

lemma selectBranchNames_choices_exact:
  assumes "length (filter isCurrent branches) = 1"
  shows "mset (map choice_name (selectBranchNames_choices w branches)) =
     mset (map name (filter (\<lambda>b. \<not> isCurrent b) branches))"
proof -
  let ?s = "selectBranchNames_sorted w branches"
  let ?byName = "sort_js (\<lambda>a b. localeCompare w (name a) (name b)) branches"
  have ms: "mset ?s = mset branches"
    by (simp add: selectBranchNames_sorted_def mset_sort_js)
  from assms have ex: "\<exists>b \<in> set branches. isCurrent b"
    by (metis filter_False length_0_conv zero_neq_one)
  then have ne: "?byName \<noteq> []" using mset_sort_js [of _ branches] by (metis empty_iff list.set(1) mset_zero_iff)
  have setn: "set ?byName = set branches" using mset_sort_js [of _ branches] by (metis set_mset_mset)
  from sort_current_first [OF ne] ex setn
  have "?s \<noteq> []" "isCurrent (hd ?s)" by (auto simp: selectBranchNames_sorted_def)
  then obtain c others where s: "?s = c # others" "isCurrent c" by (cases ?s) auto
  have "length (filter isCurrent ?s) = length (filter isCurrent branches)"
    using ms by (metis mset_filter size_mset)
  with assms s have "filter isCurrent others = []" by simp
  then have o: "filter (\<lambda>b. \<not> isCurrent b) others = others"
    by (simp add: filter_empty_conv filter_id_conv)
  have "mset (filter (\<lambda>b. \<not> isCurrent b) branches) = mset (filter (\<lambda>b. \<not> isCurrent b) ?s)"
    using ms by (metis mset_filter)
  also have "\<dots> = mset others" using s o by simp
  finally have "mset (map name (filter (\<lambda>b. \<not> isCurrent b) branches)) = mset (map name others)"
    by (metis mset_map)
  then show ?thesis
    using s by (simp add: selectBranchNames_choices_def comp_def choice_name_choice_of)
qed

text \<open>
  C4 fails for \<open>selectBranchNames\<close> of \<^verbatim>\<open>src/git-branch-delete.ts\<close> on a listing with
  no current record: the first record of the sorted list is set aside as the current
  one whether it is current or not. With the single branch \<open>feature\<close>, not current, the
  prompt is given no choice at all; the earlier file offers \<open>feature\<close>.
\<close>

theorem selectBranchNames_drops_first_record:
  "selectBranchNames_choices w
     [\<lparr>name = ''feature'', lastCommitRelative = ''3 days ago'',
       lastCommit = ''2023-12-29'', isCurrent = False\<rparr>] = []
   \<and> selectBranchNames_v1_choices w
     [\<lparr>name = ''feature'', lastCommitRelative = ''3 days ago'',
       lastCommit = Some ''2023-12-29'', isCurrent = False\<rparr>] =
       [\<lparr>choice_name = ''feature'', choice_message = ''feature (3 days ago)'',
         choice_value = ''feature''\<rparr>]
   \<and> snd (getGitBranches (scenario no_current_branch no_current_branch_v1 (Inr ''Deleted'')
        (Some []) [])) =
       Returned [\<lparr>name = ''feature'', lastCommitRelative = ''3 days ago'',
                  lastCommit = ''2023-12-29'', isCurrent = False\<rparr>]
   \<and> fst (main (scenario no_current_branch no_current_branch_v1 (Inr ''Deleted'')
        (Some []) [])) = [Exec getGitBranches_cmd, PromptMultiselect []]"
  by (simp add: run_defs parse_defs)

subsection \<open>Deletion Confirmer\<close>

text \<open>
  \<open>confirmDeletion\<close> of \<^verbatim>\<open>src/git-branch-delete.ts\<close>: no prompt for the empty list,
  true exactly on the validated line \<open>yes\<close>, never an error.
\<close>

lemma confirmDeletion_empty: "confirmDeletion w [] = ([], Returned False)"
  by (simp add: confirmDeletion_def)

lemma confirmDeletion_result:
  "branches \<noteq> [] \<Longrightarrow>
     snd (confirmDeletion w branches) =
       Returned (prompt_input confirmDeletion_validate w = Some ''yes'')"
  by (auto simp: confirmDeletion_def split: option.splits)

lemma confirmDeletion_never_throws:
  "\<exists>answer. snd (confirmDeletion w branches) = Returned answer"
  by (auto simp: confirmDeletion_def split: option.splits)

lemma prompt_input_validated:
  "prompt_input validate w = Some line \<Longrightarrow> validate line \<and> line \<in> set (prompt_lines w)"
  by (auto simp: prompt_input_def find_Some_iff)

text \<open>
  C6 fails for \<open>askForConfirmation\<close> of the earlier file: a cancelled prompt rejects
  the promise instead of giving false, and the empty list is printed and prompted for
  like any other. \<open>confirmDeletion\<close> gives false in the first case and shows nothing in
  the second.
\<close>

theorem askForConfirmation_cancelled:
  "askForConfirmation
     (scenario three_branches three_branches_v1 (Inr ''Deleted'') (Some [''feature-a'']) [])
     [''feature-a''] =
     ([Log (colors_red_bold_underline ''You have selected these branches to delete:''),
       Log '' 1. feature-a'',
       PromptInput ''Delete these 1 branches? Type yes or no''], Thrown [])
   \<and> confirmDeletion
     (scenario three_branches three_branches_v1 (Inr ''Deleted'') (Some [''feature-a'']) [])
     [''feature-a''] =
     ([Log (colors_red_bold_underline ''You have selected these branches to delete:''),
       Log '' 1. feature-a'',
       PromptInput ''Delete these 1 branches? Type yes or no''], Returned False)
   \<and> fst (askForConfirmation w []) =
     [Log (colors_red_bold_underline ''You have selected these branches to delete:''),
      Log [],
      PromptInput ''Delete these 0 branches? Type yes or no'']
   \<and> fst (confirmDeletion w []) = []"
  by (simp add: run_defs)

subsection \<open>Exit codes\<close>

text \<open>
  \<open>main\<close> of \<^verbatim>\<open>src/git-branch-delete.ts\<close> exits with code 1 exactly when a command it
  has run has failed, and with code 0 otherwise. This is relative to the prompts of the
  world, which answer or cancel on every list of choices, the empty one too.
\<close>

lemma main_exit_code:
  "exit_code (snd (main w)) =
     (if \<exists>c. Exec c \<in> set (fst (main w)) \<and> isl (child_exec w c) then 1 else 0)"
proof -
  have se: "Exec c \<notin> set (fst (selectBranchNames w b))" for c b
    using selectBranchNames_events [of "Exec c" w b] by (auto simp: is_exec_def)
  have ce: "Exec c \<notin> set (fst (confirmDeletion w b))" for c b
    using confirmDeletion_events [of "Exec c" w b] by (auto simp: is_exec_def)
  show ?thesis
  proof (cases "findGitRoot w")
    case False
    then show ?thesis by (simp add: main_def main_try_def)
  next
    case root: True
    show ?thesis
    proof (cases "child_exec w getGitBranches_cmd")
      case (Inl err)
      then show ?thesis using root
        by (auto simp: main_def main_try_def and_then_def getGitBranches_def)
    next
      case (Inr out)
      then obtain branches where b: "getGitBranches_parse out = Inr branches"
        using getGitBranches_parse_Inr by blast
      have g: "getGitBranches w = ([Exec getGitBranches_cmd], Returned branches)"
        using Inr b by (simp add: getGitBranches_def)
      obtain ev2 r2 where s: "selectBranchNames w branches = (ev2, r2)" by force
      have ne2: "Exec c \<notin> set ev2" for c using se [of c branches] s by simp
      have r2: "r2 = Exited 0 \<or> (\<exists>sel. r2 = Returned sel)"
        using s by (auto simp: selectBranchNames_def Let_def split: option.splits)
      show ?thesis
      proof (cases "length branches = 1 \<and> isCurrent (branches ! 0)")
        case True
        then show ?thesis using root g Inr
          by (auto simp: main_def main_try_def and_then_def)
      next
        case ne: False
        from r2 show ?thesis
        proof
          assume "r2 = Exited 0"
          then show ?thesis using root g Inr ne s ne2
            by (auto simp: main_def main_try_def and_then_def)
        next
          assume "\<exists>sel. r2 = Returned sel"
          then obtain sel where sel: "r2 = Returned sel" by blast
          obtain ev3 ans where cf: "confirmDeletion w sel = (ev3, Returned ans)"
            using confirmDeletion_never_throws [of w sel] by (cases "confirmDeletion w sel") auto
          have ne3: "Exec c \<notin> set ev3" for c using ce [of c sel] cf by simp
          show ?thesis
          proof (cases "sel = [] \<or> \<not> ans")
            case True
            then show ?thesis using root g Inr ne s sel cf ne2 ne3
              by (auto simp: main_def main_try_def and_then_def)
          next
            case False
            then show ?thesis using root g Inr ne s sel cf ne2 ne3
              by (cases "child_exec w (deleteBranches_cmd sel)")
                (auto simp: main_def main_try_def and_then_def deleteBranches_def)
          qed
        qed
      qed
    qed
  qed
qed

text \<open>
  C3 fails for \<open>main\<close> of the earlier file. When the force-delete command fails, the
  error is printed and the run returns, so the exit code is 0 (the
  same run of \<^verbatim>\<open>src/git-branch-delete.ts\<close> exits with code 1). When the confirmation
  prompt is cancelled, the rejection leaves \<open>main\<close> unhandled, where
  \<^verbatim>\<open>src/git-branch-delete.ts\<close> exits with code 0.
\<close>

theorem main_v1_exit_code_on_failure:
  "child_exec
     (scenario three_branches three_branches_v1 (Inl ''error: branch not found'')
        (Some [''feature-a'']) [''yes''])
     (deleteBranches_v1_cmd ''feature-a'') = Inl ''error: branch not found''
   \<and> Exec (deleteBranches_v1_cmd ''feature-a'')
       \<in> set (fst (main_v1
             (scenario three_branches three_branches_v1 (Inl ''error: branch not found'')
                (Some [''feature-a'']) [''yes''])))
   \<and> snd (main_v1
        (scenario three_branches three_branches_v1 (Inl ''error: branch not found'')
           (Some [''feature-a'']) [''yes''])) = Returned ()
   \<and> exit_code (snd (main_v1
        (scenario three_branches three_branches_v1 (Inl ''error: branch not found'')
           (Some [''feature-a'']) [''yes'']))) = 0
   \<and> exit_code (snd (main
        (scenario three_branches three_branches_v1 (Inl ''error: branch not found'')
           (Some [''feature-a'']) [''yes'']))) = 1
   \<and> snd (main_v1
        (scenario three_branches three_branches_v1 (Inr ''Deleted'')
           (Some [''feature-a'']) [])) = Thrown []
   \<and> exit_code (snd (main
        (scenario three_branches three_branches_v1 (Inr ''Deleted'')
           (Some [''feature-a'']) []))) = 0"
  by (simp add: run_defs parse_defs)

end
